theory Spec2Isabelle
  imports Complex_Main "HOL-Library.List_Lexorder" "HOL-Library.Char_ord"
begin

section \<open>Values, tokens and syntax trees\<close>

text \<open>
  The interpreter of \<^verbatim>\<open>database.py\<close> works on the tokens and syntax trees of the module
  \<^verbatim>\<open>sql_compiler\<close>, and on Python values. A cell or the value of an expression is
  \<^verbatim>\<open>None\<close>, an \<^verbatim>\<open>int\<close>, a \<^verbatim>\<open>float\<close> or a \<^verbatim>\<open>str\<close>. Python integers are unbounded
  (\<^typ>\<open>int\<close>). A \<^verbatim>\<open>str\<close> is the list of the bytes of its UTF-8 encoding, which has the
  equality, the emptiness and the order (by code point) of the string itself. What a float
  holds is the type parameter \<open>'f\<close>: nothing below looks inside a float, and the
  arithmetic and the comparisons that involve one are parameters of the model
  (\<open>builtins\<close>), as is \<^verbatim>\<open>str.lower\<close>.
\<close>

datatype 'f pyvalue = VNone | VInt int | VFloat 'f | VStr string

text \<open>
  Modelled from the spec: \<^verbatim>\<open>sc.TokenType\<close>, the token kinds. The members are the ones
  \<^verbatim>\<open>database.py\<close> names (\<^verbatim>\<open>token_type_to_string\<close>, \<^verbatim>\<open>generate_literal\<close>, \<^verbatim>\<open>tokenize\<close>),
  with the identifier kind of the spec's token list. \<open>INT'\<close> is the source's \<^verbatim>\<open>INT\<close>, a
  name that Isabelle reserves.
\<close>

datatype TokenType =
    SELECT | FROM | WHERE | INSERT | INTO | VALUES | UPDATE | SET | DELETE
  | CREATE | TABLE | DROP | JOIN | ON | AND | OR | NOT | NULL
  | INT' | TEXT | FLOAT | DATE
  | EQUALS | GREATER | LESS | GREATER_EQUALS | LESS_EQUALS | NOT_EQUALS
  | PLUS | MINUS | ASTERISK | DIVIDE
  | COMMA | SEMICOLON | LEFT_PAREN | RIGHT_PAREN | DOT
  | IDENTIFIER | INTEGER | FLOAT_LITERAL | STRING | EOF

text \<open>
  Modelled from the spec: \<^verbatim>\<open>sc.ASTNode\<close>, the expression and clause nodes
  \<open>Identifier{name}\<close>, \<open>Literal{value}\<close>, \<open>BinaryExpr{left, operator, right}\<close> (node type
  \<^verbatim>\<open>EXPRESSION\<close>) and \<open>Condition{left, operator?, right?}\<close>. A literal holds an integer, a
  float, a string or NULL. An optional field that is absent is a key absent from the
  node's \<^verbatim>\<open>data\<close> dictionary: reading it raises \<^verbatim>\<open>KeyError\<close>.
\<close>

datatype 'f ASTNode =
    Identifier string
  | Literal "'f pyvalue"
  | Expression "'f ASTNode" TokenType "'f ASTNode"
  | Condition "'f ASTNode" "TokenType option" "'f ASTNode option"

text \<open>
  Modelled from the spec: the statement nodes, with the fields the executors read. A table
  reference is the name it holds (\<^verbatim>\<open>data['table'].data['name']\<close>); the column list of an
  INSERT that has none is empty; a SET clause is the pair of its \<^verbatim>\<open>left\<close> and \<^verbatim>\<open>right\<close>
  nodes; a column of CREATE is the pair of its name node and its type keyword. The JOIN
  clauses of a SELECT are never read by the executor and are left out.
\<close>

datatype 'f Statement =
    SELECT_STMT "string list" "'f ASTNode list" "'f ASTNode option"
  | INSERT_STMT string "'f ASTNode list" "'f ASTNode list"
  | UPDATE_STMT string "('f ASTNode \<times> 'f ASTNode) list" "'f ASTNode option"
  | DELETE_STMT string "'f ASTNode option"
  | CREATE_STMT string "('f ASTNode \<times> TokenType) list" "string option"
  | DROP_STMT string

text \<open>
  What the model takes from Python as given. \<open>lower F s\<close> is \<^verbatim>\<open>s.lower()\<close>. Float
  arithmetic is not modelled bit by bit: \<open>farith F op x y\<close> is what Python computes for
  \<open>x op y\<close> (\<open>op\<close> one of \<open>+ - * /\<close>) on two numbers of which one is a float, or for the
  true division \<open>x / y\<close> of two integers: a float, or \<open>None\<close> where Python raises
  \<^verbatim>\<open>OverflowError\<close> (an integer beyond the float range meets a float, or the quotient of
  two integers is beyond it). \<open>fcompare F op x y\<close> is the truth value of the comparison
  \<open>x op y\<close> of two numbers of which one is a float; \<open>fzero F x\<close> is \<open>x == 0\<close> for a float
  \<open>x\<close>. Every theorem holds for every choice of the four.
\<close>

record 'f builtins =
  lower :: "string \<Rightarrow> string"
  farith :: "TokenType \<Rightarrow> 'f pyvalue \<Rightarrow> 'f pyvalue \<Rightarrow> 'f option"
  fcompare :: "TokenType \<Rightarrow> 'f pyvalue \<Rightarrow> 'f pyvalue \<Rightarrow> bool"
  fzero :: "'f \<Rightarrow> bool"

text \<open>The exceptions that the interpreter can raise on these trees.\<close>

datatype exc = TypeError | KeyError | IndexError | OverflowError

section \<open>Tables\<close>

record ColumnDef =
  name :: string
  type :: TokenType

record 'f Table =
  table_name :: string
  title :: string
  columns :: "ColumnDef list"
  rows :: "'f pyvalue list list"

text \<open>\<^verbatim>\<open>Table._validate_type\<close>\<close>

fun validate_type :: "'f pyvalue \<Rightarrow> TokenType \<Rightarrow> bool" where
  "validate_type VNone expected_type = True"
| "validate_type v expected_type =
     (if expected_type = INT' then (case v of VInt _ \<Rightarrow> True | _ \<Rightarrow> False)
      else if expected_type = FLOAT then (case v of VInt _ \<Rightarrow> True | VFloat _ \<Rightarrow> True | _ \<Rightarrow> False)
      else if expected_type = TEXT then (case v of VStr _ \<Rightarrow> True | _ \<Rightarrow> False)
      else if expected_type = DATE then (case v of VStr _ \<Rightarrow> True | _ \<Rightarrow> False)
      else False)"

text \<open>\<^verbatim>\<open>Table.get_column_index\<close>: the first matching index; \<open>None\<close> is the source's \<open>-1\<close>.\<close>

fun index_of :: "'f builtins \<Rightarrow> string \<Rightarrow> ColumnDef list \<Rightarrow> nat \<Rightarrow> nat option" where
  "index_of F column_name [] i = None"
| "index_of F column_name (col # cols) i =
     (if lower F (name col) = lower F column_name then Some i
      else index_of F column_name cols (Suc i))"

definition get_column_index :: "'f builtins \<Rightarrow> 'f Table \<Rightarrow> string \<Rightarrow> nat option" where
  "get_column_index F table column_name = index_of F column_name (columns table) 0"

text \<open>
  The executors report by printing a message and returning \<^verbatim>\<open>False\<close> or \<^verbatim>\<open>True\<close>. A
  \<open>message\<close> is the line printed on the path that returns, named after its text, with
  the values formatted into it. (The diagnostics that expression and condition evaluation
  print before they carry on are not part of the returned value and are left out.)
\<close>

datatype message =
    No_table_specified
  | Table_not_found string
  | Unsupported_column_reference
  | Column_not_found string string
  | Column_and_value_count_mismatch nat nat
  | Value_count_mismatch nat nat
  | Column_count_mismatch nat nat
  | Type_mismatch_for_column string TokenType
  | Type_mismatch_during_update string TokenType
  | Unsupported_column_name_format
  | Table_already_exists string
  | Table_does_not_exist string
  | Row_inserted
  | Rows_updated nat
  | Rows_deleted nat
  | Table_created string
  | Table_dropped string

text \<open>
  How a piece of an executor ends: an exception, a \<^verbatim>\<open>return False\<close> after a message,
  or a value with which the executor goes on.
\<close>

datatype 'a outcome = Raised exc | Failed message | Done 'a

text \<open>\<^verbatim>\<open>Table.add_row\<close>: the new row sequence, or the failure.\<close>

fun validate_row :: "'f pyvalue list \<Rightarrow> ColumnDef list \<Rightarrow> message option" where
  "validate_row (value # values) (col # cols) =
     (if \<not> validate_type value (type col) then Some (Type_mismatch_for_column (name col) (type col))
      else validate_row values cols)"
| "validate_row values cols = None"

definition add_row :: "'f Table \<Rightarrow> 'f pyvalue list \<Rightarrow> message + 'f Table" where
  "add_row table values =
     (if length values \<noteq> length (columns table)
      then Inl (Column_count_mismatch (length (columns table)) (length values))
      else (case validate_row values (columns table) of
              Some m \<Rightarrow> Inl m
            | None \<Rightarrow> Inr (table\<lparr>rows := rows table @ [values]\<rparr>)))"

section \<open>Expressions and conditions\<close>

fun is_number :: "'f pyvalue \<Rightarrow> bool" where
  "is_number (VInt _) = True"
| "is_number (VFloat _) = True"
| "is_number _ = False"

fun is_str :: "'f pyvalue \<Rightarrow> bool" where
  "is_str (VStr _) = True"
| "is_str _ = False"

text \<open>\<^verbatim>\<open>type(left_value) == type(right_value)\<close>\<close>

fun same_type :: "'f pyvalue \<Rightarrow> 'f pyvalue \<Rightarrow> bool" where
  "same_type VNone VNone = True"
| "same_type (VInt _) (VInt _) = True"
| "same_type (VFloat _) (VFloat _) = True"
| "same_type (VStr _) (VStr _) = True"
| "same_type _ _ = False"

text \<open>\<^verbatim>\<open>right_value == 0\<close>, on a number.\<close>

fun equals_zero :: "'f builtins \<Rightarrow> 'f pyvalue \<Rightarrow> bool" where
  "equals_zero F (VInt i) = (i = 0)"
| "equals_zero F (VFloat x) = fzero F x"
| "equals_zero F _ = False"

text \<open>
  \<^verbatim>\<open>+\<close>, \<^verbatim>\<open>-\<close>, \<^verbatim>\<open>*\<close> and \<^verbatim>\<open>/\<close> on two numbers: exact on two integers, except the true
  division; every other result is a float, or \<^verbatim>\<open>OverflowError\<close>.
\<close>

fun float_result :: "'f option \<Rightarrow> exc + 'f pyvalue" where
  "float_result None = Inl OverflowError"
| "float_result (Some x) = Inr (VFloat x)"

fun arithmetic :: "'f builtins \<Rightarrow> TokenType \<Rightarrow> 'f pyvalue \<Rightarrow> 'f pyvalue \<Rightarrow> exc + 'f pyvalue" where
  "arithmetic F op (VInt a) (VInt b) =
     (if op = PLUS then Inr (VInt (a + b))
      else if op = MINUS then Inr (VInt (a - b))
      else if op = ASTERISK then Inr (VInt (a * b))
      else float_result (farith F op (VInt a) (VInt b)))"
| "arithmetic F op x y = float_result (farith F op x y)"

text \<open>\<^verbatim>\<open>Database._evaluate_expression\<close>\<close>

fun evaluate_expression ::
  "'f builtins \<Rightarrow> 'f ASTNode \<Rightarrow> 'f Table option \<Rightarrow> 'f pyvalue list option \<Rightarrow> exc + 'f pyvalue"
where
  "evaluate_expression F (Identifier nm) table row =
     (case (table, row) of
        (Some t, Some r) \<Rightarrow>
          (if r \<noteq> [] then
             (case get_column_index F t nm of
                Some col_idx \<Rightarrow> (if col_idx < length r then Inr (r ! col_idx) else Inl IndexError)
              | None \<Rightarrow> Inr (VStr nm))
           else Inr (VStr nm))
      | _ \<Rightarrow> Inr (VStr nm))"
| "evaluate_expression F (Literal v) table row = Inr v"
| "evaluate_expression F (Expression left op right) table row =
     (case evaluate_expression F left table row of
        Inl e \<Rightarrow> Inl e
      | Inr left_value \<Rightarrow>
          (case evaluate_expression F right table row of
             Inl e \<Rightarrow> Inl e
           | Inr right_value \<Rightarrow>
               (if op = DOT then
                  (if is_str left_value \<and> is_str right_value then Inr right_value else Inr VNone)
                else if op \<in> {PLUS, MINUS, ASTERISK, DIVIDE}
                        \<and> (\<not> is_number left_value \<or> \<not> is_number right_value) then Inr VNone
                else if op = PLUS \<or> op = MINUS \<or> op = ASTERISK
                  then arithmetic F op left_value right_value
                else if op = DIVIDE then
                  (if equals_zero F right_value then Inr VNone
                   else arithmetic F DIVIDE left_value right_value)
                else Inr VNone)))"
| "evaluate_expression F (Condition left op right) table row = Inr VNone"

text \<open>
  What \<^verbatim>\<open>_evaluate_condition\<close> returns: a Python \<^verbatim>\<open>bool\<close>, or the value of an expression.
\<close>

datatype 'f truth = CBool bool | CValue "'f pyvalue"

text \<open>The truth value that \<^verbatim>\<open>if\<close>, \<^verbatim>\<open>not\<close> and \<^verbatim>\<open>or\<close> give to a result.\<close>

fun truthy :: "'f builtins \<Rightarrow> 'f truth \<Rightarrow> bool" where
  "truthy F (CBool b) = b"
| "truthy F (CValue VNone) = False"
| "truthy F (CValue (VInt i)) = (i \<noteq> 0)"
| "truthy F (CValue (VFloat x)) = (\<not> fzero F x)"
| "truthy F (CValue (VStr s)) = (s \<noteq> [])"

text \<open>The six comparison operators on an ordered type.\<close>

definition compare_op :: "TokenType \<Rightarrow> 'a::linorder \<Rightarrow> 'a \<Rightarrow> bool" where
  "compare_op op a b =
     (if op = EQUALS then a = b
      else if op = NOT_EQUALS then a \<noteq> b
      else if op = GREATER then a > b
      else if op = LESS then a < b
      else if op = GREATER_EQUALS then a \<ge> b
      else a \<le> b)"

text \<open>
  A comparison of two values that passed the type check of \<^verbatim>\<open>_evaluate_condition\<close>, by
  one of the six operators. Ordering \<^verbatim>\<open>None\<close> against \<^verbatim>\<open>None\<close> raises \<^verbatim>\<open>TypeError\<close>;
  strings are ordered lexicographically.
\<close>

fun compare_values :: "'f builtins \<Rightarrow> TokenType \<Rightarrow> 'f pyvalue \<Rightarrow> 'f pyvalue \<Rightarrow> exc + bool" where
  "compare_values F op VNone VNone =
     (if op = EQUALS then Inr True else if op = NOT_EQUALS then Inr False else Inl TypeError)"
| "compare_values F op (VInt a) (VInt b) = Inr (compare_op op a b)"
| "compare_values F op (VStr a) (VStr b) = Inr (compare_op op a b)"
| "compare_values F op x y = Inr (fcompare F op x y)"

text \<open>\<^verbatim>\<open>Database._evaluate_condition\<close>\<close>

fun evaluate_condition ::
  "'f builtins \<Rightarrow> 'f ASTNode \<Rightarrow> 'f Table \<Rightarrow> 'f pyvalue list \<Rightarrow> exc + 'f truth"
where
  "evaluate_condition F (Condition left (Some op) (Some right)) table row =
     (if op = AND \<or> op = OR then
        (case evaluate_condition F left table row of
           Inl e \<Rightarrow> Inl e
         | Inr left_eval \<Rightarrow>
             (case evaluate_condition F right table row of
                Inl e \<Rightarrow> Inl e
              | Inr right_eval \<Rightarrow>
                  (case (left_eval, right_eval) of
                     (CBool l, CBool r) \<Rightarrow> Inr (CBool (if op = AND then l \<and> r else l \<or> r))
                   | _ \<Rightarrow> Inr (CBool False))))
      else if op = NOT then
        (case evaluate_condition F right table row of
           Inl e \<Rightarrow> Inl e
         | Inr (CBool r) \<Rightarrow> Inr (CBool (\<not> r))
         | Inr _ \<Rightarrow> Inr (CBool False))
      else
        (case evaluate_expression F left (Some table) (Some row) of
           Inl e \<Rightarrow> Inl e
         | Inr left_value \<Rightarrow>
             (case evaluate_expression F right (Some table) (Some row) of
                Inl e \<Rightarrow> Inl e
              | Inr right_value \<Rightarrow>
                  (if \<not> same_type left_value right_value
                      \<and> \<not> (is_number left_value \<and> is_number right_value)
                   then Inr (CBool False)
                   else if op \<in> {EQUALS, NOT_EQUALS, GREATER, LESS, GREATER_EQUALS, LESS_EQUALS}
                   then (case compare_values F op left_value right_value of
                           Inl e \<Rightarrow> Inl e
                         | Inr b \<Rightarrow> Inr (CBool b))
                   else Inr (CBool False)))))"
| "evaluate_condition F (Condition left (Some op) None) table row =
     (if op = AND \<or> op = OR then
        (case evaluate_condition F left table row of
           Inl e \<Rightarrow> Inl e
         | Inr left_eval \<Rightarrow> Inl KeyError)
      else if op = NOT then Inl KeyError
      else
        (case evaluate_expression F left (Some table) (Some row) of
           Inl e \<Rightarrow> Inl e
         | Inr left_value \<Rightarrow> Inl KeyError))"
| "evaluate_condition F condition table row =
     (case evaluate_expression F condition (Some table) (Some row) of
        Inl e \<Rightarrow> Inl e
      | Inr evaluated_expr \<Rightarrow> Inr (CValue evaluated_expr))"

section \<open>The catalog and the statement executors\<close>

text \<open>
  \<^verbatim>\<open>Database.tables\<close>: a dictionary from the lower-cased name to the table. The executors
  mutate it in place; here each returns the catalog it leaves behind, also when it fails
  or raises.
\<close>

type_synonym 'f Database = "string \<rightharpoonup> 'f Table"

text \<open>What \<^verbatim>\<open>execute_query\<close> gives back to its caller.\<close>

datatype 'f result =
    Exception exc
  | Return_False message
  | Return_True message
  | Return_Rows "string list" "'f pyvalue list list"

definition create_table ::
  "'f builtins \<Rightarrow> 'f Database \<Rightarrow> string \<Rightarrow> ColumnDef list \<Rightarrow> string option
    \<Rightarrow> message + 'f Database" where
  "create_table F db nm cols ttl =
     (if lower F nm \<in> dom db then Inl (Table_already_exists nm)
      else Inr (db(lower F nm \<mapsto>
             \<lparr>table_name = nm,
              title = (case ttl of Some t \<Rightarrow> if t \<noteq> [] then t else nm | None \<Rightarrow> nm),
              columns = cols, rows = []\<rparr>)))"

definition drop_table :: "'f builtins \<Rightarrow> 'f Database \<Rightarrow> string \<Rightarrow> message + 'f Database" where
  "drop_table F db nm =
     (if lower F nm \<notin> dom db then Inl (Table_does_not_exist nm)
      else Inr (db(lower F nm := None)))"

definition get_table :: "'f builtins \<Rightarrow> 'f Database \<Rightarrow> string \<Rightarrow> 'f Table option" where
  "get_table F db nm = db (lower F nm)"

subsection \<open>SELECT\<close>

text \<open>The name that a node of the projection list refers to.\<close>

fun select_column_name :: "'f ASTNode \<Rightarrow> string outcome" where
  "select_column_name (Identifier nm) = Done nm"
| "select_column_name (Expression left op right) =
     (if op = DOT then (case right of Identifier nm \<Rightarrow> Done nm | _ \<Rightarrow> Raised KeyError)
      else Failed Unsupported_column_reference)"
| "select_column_name _ = Failed Unsupported_column_reference"

fun select_columns ::
  "'f builtins \<Rightarrow> 'f Table \<Rightarrow> string \<Rightarrow> 'f ASTNode list \<Rightarrow> (nat list \<times> string list) outcome"
where
  "select_columns F table tn [] = Done ([], [])"
| "select_columns F table tn (col_node # col_nodes) =
     (case select_column_name col_node of
        Raised e \<Rightarrow> Raised e
      | Failed m \<Rightarrow> Failed m
      | Done col_name \<Rightarrow>
          (case get_column_index F table col_name of
             None \<Rightarrow> Failed (Column_not_found col_name tn)
           | Some col_idx \<Rightarrow>
               (case select_columns F table tn col_nodes of
                  Done (indices, names) \<Rightarrow> Done (col_idx # indices, col_name # names)
                | other \<Rightarrow> other)))"

text \<open>
  The projection: \<^verbatim>\<open>columns[0].data['name'] == '*'\<close> is read first, which raises on an
  empty list and on a first node that has no name.
\<close>

definition projection ::
  "'f builtins \<Rightarrow> 'f Table \<Rightarrow> string \<Rightarrow> 'f ASTNode list \<Rightarrow> (nat list \<times> string list) outcome"
where
  "projection F table tn col_nodes =
     (case col_nodes of
        [] \<Rightarrow> Raised IndexError
      | Identifier nm # _ \<Rightarrow>
          (if nm = ''*'' then Done ([0 ..< length (columns table)], map name (columns table))
           else select_columns F table tn col_nodes)
      | _ # _ \<Rightarrow> Raised KeyError)"

text \<open>\<^verbatim>\<open>[row[i] for i in selected_columns_indices]\<close>\<close>

fun project :: "'f pyvalue list \<Rightarrow> nat list \<Rightarrow> exc + 'f pyvalue list" where
  "project row [] = Inr []"
| "project row (i # indices) =
     (if i < length row then
        (case project row indices of Inl e \<Rightarrow> Inl e | Inr cells \<Rightarrow> Inr (row ! i # cells))
      else Inl IndexError)"

text \<open>
  \<^verbatim>\<open>not ast.data.get('where_clause') or self._evaluate_condition(...)\<close>: whether the scan
  of SELECT and of UPDATE takes the row.
\<close>

definition qualifies ::
  "'f builtins \<Rightarrow> 'f ASTNode option \<Rightarrow> 'f Table \<Rightarrow> 'f pyvalue list \<Rightarrow> exc + bool" where
  "qualifies F where_clause table row =
     (case where_clause of
        None \<Rightarrow> Inr True
      | Some condition \<Rightarrow>
          (case evaluate_condition F condition table row of
             Inl e \<Rightarrow> Inl e
           | Inr v \<Rightarrow> Inr (truthy F v)))"

fun filter_rows ::
  "'f builtins \<Rightarrow> 'f ASTNode option \<Rightarrow> 'f Table \<Rightarrow> nat list \<Rightarrow> 'f pyvalue list list
    \<Rightarrow> exc + 'f pyvalue list list" where
  "filter_rows F where_clause table indices [] = Inr []"
| "filter_rows F where_clause table indices (row # rest) =
     (case qualifies F where_clause table row of
        Inl e \<Rightarrow> Inl e
      | Inr True \<Rightarrow>
          (case project row indices of
             Inl e \<Rightarrow> Inl e
           | Inr filtered_row_data \<Rightarrow>
               (case filter_rows F where_clause table indices rest of
                  Inl e \<Rightarrow> Inl e
                | Inr filtered_rows \<Rightarrow> Inr (filtered_row_data # filtered_rows)))
      | Inr False \<Rightarrow> filter_rows F where_clause table indices rest)"

definition execute_select ::
  "'f builtins \<Rightarrow> 'f Database \<Rightarrow> string list \<Rightarrow> 'f ASTNode list \<Rightarrow> 'f ASTNode option
    \<Rightarrow> 'f result" where
  "execute_select F db tables col_nodes where_clause =
     (case tables of
        [] \<Rightarrow> Return_False No_table_specified
      | tn # _ \<Rightarrow>
          (case get_table F db tn of
             None \<Rightarrow> Return_False (Table_not_found tn)
           | Some table \<Rightarrow>
               (case projection F table tn col_nodes of
                  Raised e \<Rightarrow> Exception e
                | Failed m \<Rightarrow> Return_False m
                | Done (indices, names) \<Rightarrow>
                    (case filter_rows F where_clause table indices (rows table) of
                       Inl e \<Rightarrow> Exception e
                     | Inr filtered_rows \<Rightarrow> Return_Rows names filtered_rows))))"

subsection \<open>INSERT\<close>

text \<open>\<^verbatim>\<open>[self._evaluate_expression(expr) for expr in ast.data['values']]\<close>\<close>

fun evaluate_values :: "'f builtins \<Rightarrow> 'f ASTNode list \<Rightarrow> exc + 'f pyvalue list" where
  "evaluate_values F [] = Inr []"
| "evaluate_values F (expr # exprs) =
     (case evaluate_expression F expr None None of
        Inl e \<Rightarrow> Inl e
      | Inr v \<Rightarrow>
          (case evaluate_values F exprs of Inl e \<Rightarrow> Inl e | Inr vs \<Rightarrow> Inr (v # vs)))"

fun insert_columns ::
  "'f builtins \<Rightarrow> 'f Table \<Rightarrow> string \<Rightarrow> 'f ASTNode list \<Rightarrow> nat list outcome" where
  "insert_columns F table tn [] = Done []"
| "insert_columns F table tn (Identifier col_name # col_nodes) =
     (case get_column_index F table col_name of
        None \<Rightarrow> Failed (Column_not_found col_name tn)
      | Some col_idx \<Rightarrow>
          (case insert_columns F table tn col_nodes of
             Done column_indices \<Rightarrow> Done (col_idx # column_indices)
           | other \<Rightarrow> other))"
| "insert_columns F table tn (_ # col_nodes) = Failed Unsupported_column_reference"

text \<open>
  \<^verbatim>\<open>for i, col_idx in enumerate(column_indices): row_values[col_idx] = values_to_insert[i]\<close>,
  run on lists of equal length. Every index comes from \<open>get_column_index\<close> and is inside
  \<open>row_values\<close>.
\<close>

fun fill_row :: "nat list \<Rightarrow> 'f pyvalue list \<Rightarrow> 'f pyvalue list \<Rightarrow> 'f pyvalue list" where
  "fill_row (col_idx # column_indices) (v # vs) row_values =
     fill_row column_indices vs (row_values[col_idx := v])"
| "fill_row column_indices vs row_values = row_values"

definition execute_insert ::
  "'f builtins \<Rightarrow> 'f Database \<Rightarrow> string \<Rightarrow> 'f ASTNode list \<Rightarrow> 'f ASTNode list
    \<Rightarrow> 'f result \<times> 'f Database" where
  "execute_insert F db tn col_nodes value_nodes =
     (case get_table F db tn of
        None \<Rightarrow> (Return_False (Table_not_found tn), db)
      | Some table \<Rightarrow>
          (case evaluate_values F value_nodes of
             Inl e \<Rightarrow> (Exception e, db)
           | Inr values_to_insert \<Rightarrow>
               (if col_nodes \<noteq> [] then
                  (case insert_columns F table tn col_nodes of
                     Raised e \<Rightarrow> (Exception e, db)
                   | Failed m \<Rightarrow> (Return_False m, db)
                   | Done column_indices \<Rightarrow>
                       (if length column_indices \<noteq> length values_to_insert
                        then (Return_False (Column_and_value_count_mismatch
                                (length column_indices) (length values_to_insert)), db)
                        else
                          (case add_row table
                                  (fill_row column_indices values_to_insert
                                     (replicate (length (columns table)) VNone)) of
                             Inl m \<Rightarrow> (Return_False m, db)
                           | Inr table' \<Rightarrow> (Return_True Row_inserted, db(lower F tn \<mapsto> table')))))
                else
                  (if length values_to_insert \<noteq> length (columns table)
                   then (Return_False (Value_count_mismatch
                           (length (columns table)) (length values_to_insert)), db)
                   else
                     (case add_row table values_to_insert of
                        Inl m \<Rightarrow> (Return_False m, db)
                      | Inr table' \<Rightarrow> (Return_True Row_inserted, db(lower F tn \<mapsto> table')))))))"

subsection \<open>UPDATE\<close>

text \<open>
  The first loop of \<^verbatim>\<open>_execute_update\<close>: each SET clause gives the index of its column
  and the value of its right-hand side, which is computed here, with neither table nor
  row.
\<close>

fun set_clauses ::
  "'f builtins \<Rightarrow> 'f Table \<Rightarrow> string \<Rightarrow> ('f ASTNode \<times> 'f ASTNode) list
    \<Rightarrow> (nat \<times> 'f pyvalue) list outcome" where
  "set_clauses F table tn [] = Done []"
| "set_clauses F table tn ((Identifier col_name, right) # set_nodes) =
     (case get_column_index F table col_name of
        None \<Rightarrow> Failed (Column_not_found col_name tn)
      | Some col_idx \<Rightarrow>
          (case evaluate_expression F right None None of
             Inl e \<Rightarrow> Raised e
           | Inr v \<Rightarrow>
               (case set_clauses F table tn set_nodes of
                  Done clauses \<Rightarrow> Done ((col_idx, v) # clauses)
                | other \<Rightarrow> other)))"
| "set_clauses F table tn (_ # set_nodes) = Failed Unsupported_column_reference"

text \<open>
  The inner loop: the clauses are checked and written one after the other into the row,
  so a clause that fails the check leaves the writes of the clauses before it. The row
  is returned as the loop leaves it.
\<close>

fun update_row ::
  "ColumnDef list \<Rightarrow> (nat \<times> 'f pyvalue) list \<Rightarrow> 'f pyvalue list
    \<Rightarrow> unit outcome \<times> 'f pyvalue list" where
  "update_row cols [] row = (Done (), row)"
| "update_row cols ((col_idx, v) # clauses) row =
     (if \<not> validate_type v (type (cols ! col_idx))
      then (Failed (Type_mismatch_during_update (name (cols ! col_idx)) (type (cols ! col_idx))), row)
      else if col_idx < length row then update_row cols clauses (row[col_idx := v])
      else (Raised IndexError, row))"

text \<open>
  The scan: \<open>rows_updated\<close> counts the rows written so far. The rows are returned as the
  scan leaves them, also when it stops at a failure or an exception.
\<close>

fun update_rows ::
  "'f builtins \<Rightarrow> 'f ASTNode option \<Rightarrow> 'f Table \<Rightarrow> (nat \<times> 'f pyvalue) list \<Rightarrow> nat
    \<Rightarrow> 'f pyvalue list list \<Rightarrow> nat outcome \<times> 'f pyvalue list list" where
  "update_rows F where_clause table clauses rows_updated [] = (Done rows_updated, [])"
| "update_rows F where_clause table clauses rows_updated (row # rest) =
     (case qualifies F where_clause table row of
        Inl e \<Rightarrow> (Raised e, row # rest)
      | Inr False \<Rightarrow>
          (case update_rows F where_clause table clauses rows_updated rest of
             (r, rest') \<Rightarrow> (r, row # rest'))
      | Inr True \<Rightarrow>
          (case update_row (columns table) clauses row of
             (Raised e, row') \<Rightarrow> (Raised e, row' # rest)
           | (Failed m, row') \<Rightarrow> (Failed m, row' # rest)
           | (Done _, row') \<Rightarrow>
               (case update_rows F where_clause table clauses (Suc rows_updated) rest of
                  (r, rest') \<Rightarrow> (r, row' # rest'))))"

definition execute_update ::
  "'f builtins \<Rightarrow> 'f Database \<Rightarrow> string \<Rightarrow> ('f ASTNode \<times> 'f ASTNode) list
    \<Rightarrow> 'f ASTNode option \<Rightarrow> 'f result \<times> 'f Database" where
  "execute_update F db tn set_nodes where_clause =
     (case get_table F db tn of
        None \<Rightarrow> (Return_False (Table_not_found tn), db)
      | Some table \<Rightarrow>
          (case set_clauses F table tn set_nodes of
             Raised e \<Rightarrow> (Exception e, db)
           | Failed m \<Rightarrow> (Return_False m, db)
           | Done clauses \<Rightarrow>
               (case update_rows F where_clause table clauses 0 (rows table) of
                  (r, rows') \<Rightarrow>
                    ((case r of
                        Raised e \<Rightarrow> Exception e
                      | Failed m \<Rightarrow> Return_False m
                      | Done rows_updated \<Rightarrow> Return_True (Rows_updated rows_updated)),
                     db(lower F tn \<mapsto> table\<lparr>rows := rows'\<rparr>)))))"

subsection \<open>DELETE\<close>

text \<open>The rows to keep and the number of rows deleted.\<close>

fun delete_rows ::
  "'f builtins \<Rightarrow> 'f ASTNode option \<Rightarrow> 'f Table \<Rightarrow> 'f pyvalue list list
    \<Rightarrow> exc + ('f pyvalue list list \<times> nat)" where
  "delete_rows F where_clause table [] = Inr ([], 0)"
| "delete_rows F where_clause table (row # rest) =
     (case (case where_clause of
              None \<Rightarrow> Inr False
            | Some condition \<Rightarrow>
                (case evaluate_condition F condition table row of
                   Inl e \<Rightarrow> Inl e
                 | Inr v \<Rightarrow> Inr (\<not> truthy F v))) of
        Inl e \<Rightarrow> Inl e
      | Inr keep \<Rightarrow>
          (case delete_rows F where_clause table rest of
             Inl e \<Rightarrow> Inl e
           | Inr (rows_to_keep, rows_deleted) \<Rightarrow>
               (if keep then Inr (row # rows_to_keep, rows_deleted)
                else Inr (rows_to_keep, Suc rows_deleted))))"

definition execute_delete ::
  "'f builtins \<Rightarrow> 'f Database \<Rightarrow> string \<Rightarrow> 'f ASTNode option \<Rightarrow> 'f result \<times> 'f Database" where
  "execute_delete F db tn where_clause =
     (case get_table F db tn of
        None \<Rightarrow> (Return_False (Table_not_found tn), db)
      | Some table \<Rightarrow>
          (case delete_rows F where_clause table (rows table) of
             Inl e \<Rightarrow> (Exception e, db)
           | Inr (rows_to_keep, rows_deleted) \<Rightarrow>
               (Return_True (Rows_deleted rows_deleted),
                db(lower F tn \<mapsto> table\<lparr>rows := rows_to_keep\<rparr>))))"

subsection \<open>CREATE and DROP\<close>

fun create_columns :: "('f ASTNode \<times> TokenType) list \<Rightarrow> ColumnDef list outcome" where
  "create_columns [] = Done []"
| "create_columns ((Identifier col_name, col_type) # col_nodes) =
     (case create_columns col_nodes of
        Done cols \<Rightarrow> Done (\<lparr>name = col_name, type = col_type\<rparr> # cols)
      | other \<Rightarrow> other)"
| "create_columns (_ # col_nodes) = Failed Unsupported_column_name_format"

definition execute_create ::
  "'f builtins \<Rightarrow> 'f Database \<Rightarrow> string \<Rightarrow> ('f ASTNode \<times> TokenType) list \<Rightarrow> string option
    \<Rightarrow> 'f result \<times> 'f Database" where
  "execute_create F db tn col_nodes ttl =
     (case create_columns col_nodes of
        Raised e \<Rightarrow> (Exception e, db)
      | Failed m \<Rightarrow> (Return_False m, db)
      | Done cols \<Rightarrow>
          (case create_table F db tn cols ttl of
             Inl m \<Rightarrow> (Return_False m, db)
           | Inr db' \<Rightarrow> (Return_True (Table_created tn), db')))"

definition execute_drop :: "'f builtins \<Rightarrow> 'f Database \<Rightarrow> string \<Rightarrow> 'f result \<times> 'f Database" where
  "execute_drop F db tn =
     (case drop_table F db tn of
        Inl m \<Rightarrow> (Return_False m, db)
      | Inr db' \<Rightarrow> (Return_True (Table_dropped tn), db'))"

subsection \<open>Dispatch\<close>

text \<open>\<^verbatim>\<open>Database.execute_query\<close>\<close>

fun execute_query :: "'f builtins \<Rightarrow> 'f Database \<Rightarrow> 'f Statement \<Rightarrow> 'f result \<times> 'f Database" where
  "execute_query F db (SELECT_STMT tables col_nodes where_clause) =
     (execute_select F db tables col_nodes where_clause, db)"
| "execute_query F db (INSERT_STMT tn col_nodes value_nodes) =
     execute_insert F db tn col_nodes value_nodes"
| "execute_query F db (UPDATE_STMT tn set_nodes where_clause) =
     execute_update F db tn set_nodes where_clause"
| "execute_query F db (DELETE_STMT tn where_clause) = execute_delete F db tn where_clause"
| "execute_query F db (CREATE_STMT tn col_nodes ttl) = execute_create F db tn col_nodes ttl"
| "execute_query F db (DROP_STMT tn) = execute_drop F db tn"

text \<open>A sequence of statements run one after the other on the same catalog.\<close>

fun run :: "'f builtins \<Rightarrow> 'f Database \<Rightarrow> 'f Statement list \<Rightarrow> 'f Database" where
  "run F db [] = db"
| "run F db (stmt # stmts) = run F (snd (execute_query F db stmt)) stmts"

section \<open>The invariant of the catalog\<close>

text \<open>
  What the specification asks of a cell, in its words: NULL fits every column, an integer
  fits an INT or a FLOAT column, a float fits a FLOAT column, a string fits a TEXT or a
  DATE column.
\<close>

fun satisfies_declared_type :: "'f pyvalue \<Rightarrow> TokenType \<Rightarrow> bool" where
  "satisfies_declared_type VNone ty = True"
| "satisfies_declared_type (VInt _) ty = (ty = INT' \<or> ty = FLOAT)"
| "satisfies_declared_type (VFloat _) ty = (ty = FLOAT)"
| "satisfies_declared_type (VStr _) ty = (ty = TEXT \<or> ty = DATE)"

definition row_ok :: "ColumnDef list \<Rightarrow> 'f pyvalue list \<Rightarrow> bool" where
  "row_ok cols row =
     (length row = length cols
      \<and> (\<forall>i < length row. satisfies_declared_type (row ! i) (type (cols ! i))))"

text \<open>
  Every table is stored under its lower-cased name, so no two tables have names that are
  equal up to case; every row has one cell for each column, of the column's type.
\<close>

definition catalog_invariant :: "'f builtins \<Rightarrow> 'f Database \<Rightarrow> bool" where
  "catalog_invariant F db =
     (\<forall>k table. db k = Some table \<longrightarrow>
        k = lower F (table_name table) \<and> (\<forall>row \<in> set (rows table). row_ok (columns table) row))"

section \<open>A division by zero as NULL\<close>



section \<open>Examples\<close>

text \<open>
  An instance of the parameters on which the model runs. Floats are the rationals with
  exact arithmetic; an integer of magnitude \<open>2 ^ 1024\<close> or more does not convert to a
  float, and the quotient of two integers of that magnitude is no float
  (\<^verbatim>\<open>OverflowError\<close>: the largest float is below \<open>2 ^ 1024\<close>). \<open>lower\<close> folds the letters
  A to Z, as \<^verbatim>\<open>str.lower\<close> does on ASCII strings. The examples hold ASCII names, and the
  only arithmetic that they run is the division of \<open>2 ^ 1024\<close> by \<open>1\<close>.
\<close>

definition ascii_lower :: "string \<Rightarrow> string" where
  "ascii_lower s =
     map (\<lambda>c. case map_of (zip ''ABCDEFGHIJKLMNOPQRSTUVWXYZ'' ''abcdefghijklmnopqrstuvwxyz'') c of
                 Some d \<Rightarrow> d
               | None \<Rightarrow> c) s"

fun number :: "rat pyvalue \<Rightarrow> rat" where
  "number (VInt i) = of_int i"
| "number (VFloat x) = x"
| "number _ = 0"

fun too_large :: "rat pyvalue \<Rightarrow> bool" where
  "too_large (VInt i) = (2 ^ 1024 \<le> \<bar>i\<bar>)"
| "too_large _ = False"

definition exact_arith :: "TokenType \<Rightarrow> rat pyvalue \<Rightarrow> rat pyvalue \<Rightarrow> rat option" where
  "exact_arith op x y =
     (case (x, y) of
        (VInt a, VInt b) \<Rightarrow>
          (if 2 ^ 1024 \<le> \<bar>of_int a / of_int b :: rat\<bar> then None else Some (of_int a / of_int b))
      | _ \<Rightarrow>
          (if too_large x \<or> too_large y then None
           else if op = PLUS then Some (number x + number y)
           else if op = MINUS then Some (number x - number y)
           else if op = ASTERISK then Some (number x * number y)
           else Some (number x / number y)))"

definition exact :: "rat builtins" where
  "exact =
     \<lparr>lower = ascii_lower,
      farith = exact_arith,
      fcompare = (\<lambda>op x y. compare_op op (number x) (number y)),
      fzero = (\<lambda>x. x = 0)\<rparr>"

text \<open>The table \<open>t(id INT, name TEXT)\<close> with two rows, and the catalog that holds it.\<close>

definition t_columns :: "ColumnDef list" where
  "t_columns = [\<lparr>name = ''id'', type = INT'\<rparr>, \<lparr>name = ''name'', type = TEXT\<rparr>]"

definition t_table :: "rat pyvalue list list \<Rightarrow> rat Table" where
  "t_table rs = \<lparr>table_name = ''t'', title = ''t'', columns = t_columns, rows = rs\<rparr>"

definition t_db :: "rat pyvalue list list \<Rightarrow> rat Database" where
  "t_db rs = [''t'' \<mapsto> t_table rs]"

definition two_rows :: "rat pyvalue list list" where
  "two_rows = [[VInt 1, VStr ''Alice''], [VInt 2, VStr ''Bob'']]"

section \<open>The row-level type check\<close>

text \<open>
  C9. For every value and every column type, \<open>validate_type\<close> accepts NULL; it accepts an
  integer exactly in an INT or a FLOAT column, a float exactly in a FLOAT column (so an INT
  column rejects a float), and a string exactly in a TEXT or a DATE column.
\<close>

theorem validate_type_categories:
  "validate_type VNone ty
   \<and> (validate_type (VInt i) ty \<longleftrightarrow> ty = INT' \<or> ty = FLOAT)
   \<and> (validate_type (VFloat x) ty \<longleftrightarrow> ty = FLOAT)
   \<and> (validate_type (VStr s) ty \<longleftrightarrow> ty = TEXT \<or> ty = DATE)"
  by simp

section \<open>Evaluation without a row\<close>

lemma evaluate_expression_no_context_raises:
  "evaluate_expression F e None None = Inl x \<Longrightarrow> x = OverflowError"
proof (induction e arbitrary: x)
  case (Expression left op right)
  have ar: "arithmetic F o' l r = Inl x \<Longrightarrow> x = OverflowError" for o' l r
    by (cases "(F, o', l, r)" rule: arithmetic.cases)
       (auto split: if_splits elim!: float_result.elims)
  from Expression show ?case
    by (auto split: sum.splits if_splits dest: ar)
qed simp_all

lemma evaluate_values_Inr:
  "evaluate_values F es = Inr vs \<Longrightarrow>
     length vs = length es
     \<and> (\<forall>i < length es. evaluate_expression F (es ! i) None None = Inr (vs ! i))"
proof (induction es arbitrary: vs)
  case Nil
  then show ?case by simp
next
  case (Cons e es)
  then show ?case
    by (auto simp: nth_Cons split: sum.splits nat.splits)
qed

lemma evaluate_values_Inl:
  "evaluate_values F es = Inl x \<Longrightarrow> x = OverflowError"
proof (induction es)
  case Nil
  then show ?case by simp
next
  case (Cons e es)
  then show ?case
    by (auto split: sum.splits dest: evaluate_expression_no_context_raises)
qed

section \<open>Columns and rows\<close>

lemma index_of_bounds:
  "index_of F nm cols k = Some i \<Longrightarrow> k \<le> i \<and> i < k + length cols"
proof (induction cols arbitrary: k)
  case Nil
  then show ?case by simp
next
  case (Cons c cols)
  show ?case
  proof (cases "lower F (name c) = lower F nm")
    case True
    with Cons.prems show ?thesis by simp
  next
    case False
    with Cons.prems have "index_of F nm cols (Suc k) = Some i" by simp
    from Cons.IH [OF this] show ?thesis by simp
  qed
qed

lemma get_column_index_less:
  "get_column_index F table nm = Some i \<Longrightarrow> i < length (columns table)"
  using index_of_bounds [of F nm "columns table" 0 i] by (simp add: get_column_index_def)

lemma validate_row_None_iff:
  "length vs = length cols \<Longrightarrow>
     validate_row vs cols = None \<longleftrightarrow> (\<forall>i < length vs. validate_type (vs ! i) (type (cols ! i)))"
proof (induction vs cols rule: list_induct2)
  case Nil
  then show ?case by simp
next
  case (Cons v vs c cs)
  then show ?case by (auto simp: nth_Cons split: nat.splits)
qed

lemma validate_row_Some:
  "validate_row vs cols = Some m \<Longrightarrow> \<exists>c ty. m = Type_mismatch_for_column c ty"
  by (induction vs cols rule: validate_row.induct) (auto split: if_splits)

lemma validate_type_VStr: "validate_type (VStr s) ty \<longleftrightarrow> ty = TEXT \<or> ty = DATE"
  by simp

lemma validate_row_string:
  assumes "length row = length cols" and "j < length cols" and "row ! j = VStr s"
  shows "(validate_row row cols = None \<longrightarrow> type (cols ! j) = TEXT \<or> type (cols ! j) = DATE)
       \<and> (type (cols ! j) \<noteq> TEXT \<and> type (cols ! j) \<noteq> DATE
            \<longrightarrow> (\<exists>c ty. validate_row row cols = Some (Type_mismatch_for_column c ty)))"
proof -
  have a: "type (cols ! j) = TEXT \<or> type (cols ! j) = DATE" if "validate_row row cols = None"
  proof -
    from that assms(1) have "\<forall>i < length row. validate_type (row ! i) (type (cols ! i))"
      by (simp only: validate_row_None_iff)
    with assms(1,2) have "validate_type (row ! j) (type (cols ! j))"
      by (simp del: validate_type.simps)
    with assms(3) show ?thesis by (simp del: validate_type.simps add: validate_type_VStr)
  qed
  have b: "\<exists>c ty. validate_row row cols = Some (Type_mismatch_for_column c ty)"
    if "type (cols ! j) \<noteq> TEXT \<and> type (cols ! j) \<noteq> DATE"
  proof -
    from that a have "validate_row row cols \<noteq> None" by blast
    then obtain m where "validate_row row cols = Some m" by auto
    with validate_row_Some show ?thesis by blast
  qed
  from a b show ?thesis by blast
qed

lemma fill_row_length: "length (fill_row idxs vs row) = length row"
  by (induction idxs vs row rule: fill_row.induct) auto

lemma fill_row_untouched: "j \<notin> set idxs \<Longrightarrow> fill_row idxs vs row ! j = row ! j"
  by (induction idxs vs row rule: fill_row.induct) auto

lemma fill_row_last:
  "length idxs = length vs \<Longrightarrow> k < length idxs \<Longrightarrow> idxs ! k < length row
    \<Longrightarrow> (\<forall>k'. k < k' \<and> k' < length idxs \<longrightarrow> idxs ! k' \<noteq> idxs ! k)
    \<Longrightarrow> fill_row idxs vs row ! (idxs ! k) = vs ! k"
proof (induction idxs vs arbitrary: k row rule: list_induct2)
  case Nil
  then show ?case by simp
next
  case (Cons i idxs v vs)
  show ?case
  proof (cases k)
    case 0
    have "i \<notin> set idxs"
    proof
      assume "i \<in> set idxs"
      then obtain k' where "k' < length idxs" "idxs ! k' = i" by (auto simp: in_set_conv_nth)
      with Cons.prems(3) 0 show False by (auto dest: spec [of _ "Suc k'"])
    qed
    with 0 Cons.prems show ?thesis by (simp add: fill_row_untouched)
  next
    case (Suc k0)
    have "\<forall>k'. k0 < k' \<and> k' < length idxs \<longrightarrow> idxs ! k' \<noteq> idxs ! k0"
      using Cons.prems(3) Suc by (auto dest: spec [of _ "Suc k'" for k'])
    with Cons.IH [of k0 "row[i := v]"] Cons.prems Suc show ?thesis by simp
  qed
qed

lemma insert_columns_Done:
  "insert_columns F table tn col_nodes = Done idxs \<Longrightarrow>
     length idxs = length col_nodes
     \<and> (\<forall>k < length col_nodes. \<exists>nm. col_nodes ! k = Identifier nm
            \<and> get_column_index F table nm = Some (idxs ! k))"
proof (induction F table tn col_nodes arbitrary: idxs rule: insert_columns.induct)
  case (1 F table tn)
  then show ?case by simp
next
  case (2 F table tn col_name col_nodes)
  then show ?case
    by (auto simp: nth_Cons split: option.splits outcome.splits nat.splits)
qed simp_all

lemma insert_columns_names:
  "length idxs = length nms
    \<Longrightarrow> \<forall>k < length nms. get_column_index F table (nms ! k) = Some (idxs ! k)
    \<Longrightarrow> insert_columns F table tn (map Identifier nms) = Done idxs"
proof (induction idxs nms rule: list_induct2)
  case Nil
  then show ?case by simp
next
  case (Cons i idxs nm nms)
  from Cons.prems have "get_column_index F table nm = Some i" by auto
  moreover from Cons.prems have "\<forall>k < length nms. get_column_index F table (nms ! k) = Some (idxs ! k)"
    by auto
  ultimately show ?case using Cons.IH by simp
qed

section \<open>The example table\<close>

lemma exact_sel:
  "lower exact = ascii_lower" "farith exact = exact_arith"
  "fcompare exact = (\<lambda>op x y. compare_op op (number x) (number y))" "fzero exact = (\<lambda>x. x = 0)"
  by (simp_all add: exact_def)

lemma t_db_get: "get_table exact (t_db rs) ''t'' = Some (t_table rs)"
  by (simp add: get_table_def t_db_def exact_def ascii_lower_def)

lemma lower_t: "lower exact ''t'' = ''t''"
  by (simp add: exact_def ascii_lower_def)

lemma t_table_sel:
  "columns (t_table rs) = t_columns" "rows (t_table rs) = rs"
  "(t_table rs)\<lparr>rows := rs'\<rparr> = t_table rs'"
  by (simp_all add: t_table_def)

lemma t_db_upd: "(t_db rs)(''t'' \<mapsto> t_table rs') = t_db rs'"
  by (simp add: t_db_def)

lemma t_columns_index:
  "get_column_index exact (t_table rs) ''id'' = Some 0"
  "get_column_index exact (t_table rs) ''name'' = Some 1"
  by (simp_all add: get_column_index_def t_table_sel t_columns_def exact_def ascii_lower_def)

lemmas t_simps = t_db_get lower_t t_table_sel t_db_upd t_columns_index




section \<open>INSERT\<close>

lemma execute_insert_failure_keeps:
  "fst (execute_insert F db tn col_nodes value_nodes) \<noteq> Return_True Row_inserted
    \<Longrightarrow> snd (execute_insert F db tn col_nodes value_nodes) = db"
  by (auto simp: execute_insert_def split: option.splits sum.splits outcome.splits if_splits)

lemma execute_insert_column_list_success:
  assumes "get_table F db tn = Some table" "col_nodes \<noteq> []"
    and "execute_insert F db tn col_nodes value_nodes = (Return_True Row_inserted, db')"
  shows "\<exists>idxs vs. insert_columns F table tn col_nodes = Done idxs
           \<and> evaluate_values F value_nodes = Inr vs
           \<and> length idxs = length vs
           \<and> validate_row (fill_row idxs vs (replicate (length (columns table)) VNone)) (columns table) = None
           \<and> db' = db(lower F tn \<mapsto>
                 table\<lparr>rows := rows table @ [fill_row idxs vs (replicate (length (columns table)) VNone)]\<rparr>)"
  using assms
  by (auto simp: execute_insert_def add_row_def
           split: sum.splits outcome.splits if_splits option.splits)

lemma execute_insert_positional_success:
  assumes "get_table F db tn = Some table"
    and "execute_insert F db tn [] value_nodes = (Return_True Row_inserted, db')"
  shows "\<exists>vs. evaluate_values F value_nodes = Inr vs
           \<and> length vs = length (columns table)
           \<and> validate_row vs (columns table) = None
           \<and> db' = db(lower F tn \<mapsto> table\<lparr>rows := rows table @ [vs]\<rparr>)"
  using assms
  by (auto simp: execute_insert_def add_row_def
           split: sum.splits outcome.splits if_splits option.splits)

lemma execute_insert_raises:
  assumes "get_table F db tn = Some table" and "evaluate_values F value_nodes = Inl e"
  shows "execute_insert F db tn col_nodes value_nodes = (Exception e, db)"
  using assms by (simp add: execute_insert_def)

lemma execute_insert_positional:
  assumes "get_table F db tn = Some table" and "evaluate_values F value_nodes = Inr vs"
  shows "execute_insert F db tn [] value_nodes =
           (if length vs \<noteq> length (columns table)
            then (Return_False (Value_count_mismatch (length (columns table)) (length vs)), db)
            else (case validate_row vs (columns table) of
                    Some m \<Rightarrow> (Return_False m, db)
                  | None \<Rightarrow> (Return_True Row_inserted,
                             db(lower F tn \<mapsto> table\<lparr>rows := rows table @ [vs]\<rparr>))))"
  using assms by (simp add: execute_insert_def add_row_def split: option.splits)

lemma execute_insert_column_list:
  assumes "get_table F db tn = Some table" and "evaluate_values F value_nodes = Inr vs"
    and "nms \<noteq> []" and "length idxs = length nms"
    and "\<forall>k < length nms. get_column_index F table (nms ! k) = Some (idxs ! k)"
  shows "execute_insert F db tn (map Identifier nms) value_nodes =
           (if length nms \<noteq> length vs
            then (Return_False (Column_and_value_count_mismatch (length nms) (length vs)), db)
            else (case validate_row (fill_row idxs vs (replicate (length (columns table)) VNone))
                         (columns table) of
                    Some m \<Rightarrow> (Return_False m, db)
                  | None \<Rightarrow> (Return_True Row_inserted,
                             db(lower F tn \<mapsto> table\<lparr>rows := rows table
                                  @ [fill_row idxs vs (replicate (length (columns table)) VNone)]\<rparr>))))"
  using assms insert_columns_names [OF assms(4,5), of tn]
  by (simp add: execute_insert_def add_row_def fill_row_length split: option.splits)

text \<open>
  C6, as the code has it. The values of an INSERT are evaluated before the counts are
  compared. A positional INSERT (no column list) into an existing table whose number of
  values differs from the number of columns returns \<^verbatim>\<open>False\<close> with the
  value-count-mismatch message (the specification's \<open>ColumnCountMismatch\<close>) when the
  values evaluate; when the evaluation of a value raises, which can only be
  \<^verbatim>\<open>OverflowError\<close>, the INSERT raises it. In both cases the catalog, hence the table's
  rows, is unchanged. No INSERT that does not succeed changes the catalog: no partial row
  is ever appended.
\<close>

theorem insert_value_count_mismatch:
  assumes "get_table F db tn = Some table"
    and "length value_nodes \<noteq> length (columns table)"
  shows "(case evaluate_values F value_nodes of
            Inl e \<Rightarrow> e = OverflowError
                     \<and> execute_query F db (INSERT_STMT tn [] value_nodes) = (Exception e, db)
          | Inr vs \<Rightarrow> execute_query F db (INSERT_STMT tn [] value_nodes)
                     = (Return_False (Value_count_mismatch (length (columns table)) (length value_nodes)), db))
         \<and> (\<forall>tn' col_nodes' value_nodes'.
              fst (execute_query F db (INSERT_STMT tn' col_nodes' value_nodes')) \<noteq> Return_True Row_inserted
              \<longrightarrow> snd (execute_query F db (INSERT_STMT tn' col_nodes' value_nodes')) = db)"
proof -
  have "e = OverflowError \<and> execute_query F db (INSERT_STMT tn [] value_nodes) = (Exception e, db)"
    if "evaluate_values F value_nodes = Inl e" for e
    using that assms(1) evaluate_values_Inl execute_insert_raises by fastforce
  moreover have "execute_query F db (INSERT_STMT tn [] value_nodes)
           = (Return_False (Value_count_mismatch (length (columns table)) (length value_nodes)), db)"
    if "evaluate_values F value_nodes = Inr vs" for vs
    using that assms evaluate_values_Inr [OF that] execute_insert_positional [OF assms(1) that]
    by simp
  ultimately show ?thesis using execute_insert_failure_keeps
    by (auto split: sum.splits)
qed

text \<open>
  \<^verbatim>\<open>INSERT INTO t VALUES (1)\<close> on the two-column table \<open>t\<close>.
\<close>

theorem insert_value_count_mismatch_witness:
  "get_table exact (t_db two_rows) ''t'' = Some (t_table two_rows)
   \<and> length [Literal (VInt 1) :: rat ASTNode] \<noteq> length (columns (t_table two_rows))
   \<and> evaluate_values exact [Literal (VInt 1)] = Inr [VInt 1]
   \<and> execute_query exact (t_db two_rows) (INSERT_STMT ''t'' [] [Literal (VInt 1)])
       = (Return_False (Value_count_mismatch 2 1), t_db two_rows)"
proof -
  have a: "get_table exact (t_db two_rows) ''t'' = Some (t_table two_rows)" by (rule t_db_get)
  have b: "length [Literal (VInt 1) :: rat ASTNode] \<noteq> length (columns (t_table two_rows))"
    by (simp add: t_simps t_columns_def)
  have c: "evaluate_values exact [Literal (VInt 1)] = Inr [VInt 1]" by simp
  from insert_value_count_mismatch [OF a b] c
  have "execute_query exact (t_db two_rows) (INSERT_STMT ''t'' [] [Literal (VInt 1)])
       = (Return_False (Value_count_mismatch 2 1), t_db two_rows)"
    by (simp add: t_simps t_columns_def)
  with a b c show ?thesis by blast
qed

text \<open>
  \<^verbatim>\<open>INSERT INTO t VALUES (2**1024 / 1)\<close> on the two-column table \<open>t\<close>, the power written
  out as an integer literal: the division raises \<^verbatim>\<open>OverflowError\<close> before the count is
  looked at.
\<close>

theorem insert_value_count_mismatch_counterexample:
  "execute_query exact (t_db two_rows)
     (INSERT_STMT ''t'' [] [Expression (Literal (VInt (2 ^ 1024))) DIVIDE (Literal (VInt 1))])
    = (Exception OverflowError, t_db two_rows)"
  by (simp add: execute_insert_def t_simps exact_sel exact_arith_def)

text \<open>
  C5, as the code has it. An INSERT with a column list into an existing table succeeds
  only if the column list and the value list have the same length and every node of the
  column list is a name that resolves to a column of the table. On success one row is
  appended, with one cell for each column: an index named in the column list holds the
  value listed with the last column that resolves to it (so each listed value is at its
  column's index when the listed columns resolve to different indices), and every index
  that is not named holds NULL.
\<close>

theorem insert_with_column_list:
  assumes "get_table F db tn = Some table" "col_nodes \<noteq> []"
    and "execute_query F db (INSERT_STMT tn col_nodes value_nodes) = (Return_True Row_inserted, db')"
  shows "length col_nodes = length value_nodes
     \<and> (\<exists>idxs vs row.
          length idxs = length col_nodes
        \<and> (\<forall>k < length col_nodes. \<exists>nm. col_nodes ! k = Identifier nm
               \<and> get_column_index F table nm = Some (idxs ! k))
        \<and> evaluate_values F value_nodes = Inr vs
        \<and> db' = db(lower F tn \<mapsto> table\<lparr>rows := rows table @ [row]\<rparr>)
        \<and> length row = length (columns table)
        \<and> (\<forall>k < length idxs.
              (\<forall>k'. k < k' \<and> k' < length idxs \<longrightarrow> idxs ! k' \<noteq> idxs ! k) \<longrightarrow> row ! (idxs ! k) = vs ! k)
        \<and> (\<forall>j < length (columns table). j \<notin> set idxs \<longrightarrow> row ! j = VNone))"
proof -
  let ?n = "length (columns table)"
  from assms obtain idxs vs where
    idxs: "insert_columns F table tn col_nodes = Done idxs"
    and vs: "evaluate_values F value_nodes = Inr vs"
    and len: "length idxs = length vs"
    and db': "db' = db(lower F tn \<mapsto> table\<lparr>rows := rows table @ [fill_row idxs vs (replicate ?n VNone)]\<rparr>)"
    using execute_insert_column_list_success [of F db tn table col_nodes value_nodes db'] by auto
  let ?row = "fill_row idxs vs (replicate ?n VNone)"
  note cols = insert_columns_Done [OF idxs]
  have vlen: "length vs = length value_nodes"
    using evaluate_values_Inr [OF vs] by simp
  have bound: "\<forall>k < length idxs. idxs ! k < ?n"
    using cols get_column_index_less by fastforce
  have last: "\<forall>k < length idxs.
      (\<forall>k'. k < k' \<and> k' < length idxs \<longrightarrow> idxs ! k' \<noteq> idxs ! k) \<longrightarrow> ?row ! (idxs ! k) = vs ! k"
    using fill_row_last [OF len] bound by simp
  have rest: "\<forall>j < ?n. j \<notin> set idxs \<longrightarrow> ?row ! j = VNone"
    by (simp add: fill_row_untouched)
  have "length ?row = ?n" by (simp add: fill_row_length)
  with cols vs db' last rest have
    "length idxs = length col_nodes
        \<and> (\<forall>k < length col_nodes. \<exists>nm. col_nodes ! k = Identifier nm
               \<and> get_column_index F table nm = Some (idxs ! k))
        \<and> evaluate_values F value_nodes = Inr vs
        \<and> db' = db(lower F tn \<mapsto> table\<lparr>rows := rows table @ [?row]\<rparr>)
        \<and> length ?row = length (columns table)
        \<and> (\<forall>k < length idxs.
              (\<forall>k'. k < k' \<and> k' < length idxs \<longrightarrow> idxs ! k' \<noteq> idxs ! k) \<longrightarrow> ?row ! (idxs ! k) = vs ! k)
        \<and> (\<forall>j < length (columns table). j \<notin> set idxs \<longrightarrow> ?row ! j = VNone)"
    by blast
  moreover have "length col_nodes = length value_nodes"
    using cols len vlen by simp
  ultimately show ?thesis by blast
qed

lemma insert_id_2:
  "execute_query exact (t_db two_rows) (INSERT_STMT ''t'' [Identifier ''id''] [Literal (VInt 2)])
      = (Return_True Row_inserted, t_db (two_rows @ [[VInt 2, VNone]]))"
  by (simp add: execute_insert_def t_simps add_row_def t_columns_def)

text \<open>
  \<^verbatim>\<open>INSERT INTO t (id) VALUES (2)\<close> appends \<open>[2, NULL]\<close>.
\<close>

theorem insert_with_column_list_witness:
  "get_table exact (t_db two_rows) ''t'' = Some (t_table two_rows)
   \<and> [Identifier ''id'' :: rat ASTNode] \<noteq> []
   \<and> execute_query exact (t_db two_rows) (INSERT_STMT ''t'' [Identifier ''id''] [Literal (VInt 2)])
       = (Return_True Row_inserted, t_db (two_rows @ [[VInt 2, VNone]]))
   \<and> length [Identifier ''id'' :: rat ASTNode] = length [Literal (VInt 2) :: rat ASTNode]"
proof -
  have a: "get_table exact (t_db two_rows) ''t'' = Some (t_table two_rows)"
    by (rule t_db_get)
  have b: "[Identifier ''id'' :: rat ASTNode] \<noteq> []"
    by simp
  have c: "execute_query exact (t_db two_rows) (INSERT_STMT ''t'' [Identifier ''id''] [Literal (VInt 2)])
       = (Return_True Row_inserted, t_db (two_rows @ [[VInt 2, VNone]]))"
    by (rule insert_id_2)
  from insert_with_column_list [OF a b c]
  have "length [Identifier ''id'' :: rat ASTNode] = length [Literal (VInt 2) :: rat ASTNode]"
    by (rule conjunct1)
  with a b c show ?thesis by blast
qed

text \<open>
  A column listed twice: \<^verbatim>\<open>INSERT INTO t (id, id) VALUES (1, 2)\<close> succeeds and appends
  \<open>[2, NULL]\<close>, so the listed value \<open>1\<close> is not at the index of its column.
\<close>

theorem insert_with_column_list_counterexample:
  "execute_query exact (t_db two_rows)
     (INSERT_STMT ''t'' [Identifier ''id'', Identifier ''id''] [Literal (VInt 1), Literal (VInt 2)])
    = (Return_True Row_inserted,
       t_db [[VInt 1, VStr ''Alice''], [VInt 2, VStr ''Bob''], [VInt 2, VNone]])"
  by (simp add: execute_insert_def t_simps add_row_def t_columns_def two_rows_def)

text \<open>
  C10, as the code has it. The values of an INSERT are evaluated with neither table nor
  row: a bare identifier in the VALUES list evaluates to its own name as a string, never to
  an unknown-column failure. If the evaluation of another value raises (only
  \<^verbatim>\<open>OverflowError\<close>), the INSERT raises it and the catalog is unchanged. Otherwise the
  result of the INSERT is fixed by the count and by the type check of the assembled row,
  for a positional INSERT and for one with a column list whose names resolve. The string
  is checked against the column it lands in: the column at its position in a positional
  INSERT, the column named at its position in the column list provided that no later name
  of the list resolves to the same column. The check passes exactly for a TEXT or DATE
  column; if that column is neither, the row fails the check with a type-mismatch message.
  (A later name for the same column overwrites the string before the check.)
\<close>

theorem insert_identifier_value:
  assumes "get_table F db tn = Some table"
    and "i < length value_nodes" and "value_nodes ! i = Identifier nm"
  shows "evaluate_expression F (Identifier nm) None None = Inr (VStr nm)
    \<and> (\<forall>e col_nodes. evaluate_values F value_nodes = Inl e \<longrightarrow>
          e = OverflowError
          \<and> execute_query F db (INSERT_STMT tn col_nodes value_nodes) = (Exception e, db))
    \<and> (\<forall>vs. evaluate_values F value_nodes = Inr vs \<longrightarrow>
          length vs = length value_nodes \<and> vs ! i = VStr nm
          \<and> execute_query F db (INSERT_STMT tn [] value_nodes) =
               (if length vs \<noteq> length (columns table)
                then (Return_False (Value_count_mismatch (length (columns table)) (length vs)), db)
                else (case validate_row vs (columns table) of
                        Some m \<Rightarrow> (Return_False m, db)
                      | None \<Rightarrow> (Return_True Row_inserted,
                                 db(lower F tn \<mapsto> table\<lparr>rows := rows table @ [vs]\<rparr>))))
          \<and> (length vs = length (columns table) \<longrightarrow>
                (validate_row vs (columns table) = None
                   \<longrightarrow> type (columns table ! i) = TEXT \<or> type (columns table ! i) = DATE)
                \<and> (type (columns table ! i) \<noteq> TEXT \<and> type (columns table ! i) \<noteq> DATE
                   \<longrightarrow> (\<exists>c ty. validate_row vs (columns table) = Some (Type_mismatch_for_column c ty))))
          \<and> (\<forall>nms idxs.
                nms \<noteq> [] \<and> length idxs = length nms
                \<and> (\<forall>k < length nms. get_column_index F table (nms ! k) = Some (idxs ! k)) \<longrightarrow>
                execute_query F db (INSERT_STMT tn (map Identifier nms) value_nodes) =
                  (if length nms \<noteq> length vs
                   then (Return_False (Column_and_value_count_mismatch (length nms) (length vs)), db)
                   else (case validate_row (fill_row idxs vs (replicate (length (columns table)) VNone))
                                (columns table) of
                           Some m \<Rightarrow> (Return_False m, db)
                         | None \<Rightarrow> (Return_True Row_inserted,
                                    db(lower F tn \<mapsto> table\<lparr>rows := rows table
                                      @ [fill_row idxs vs (replicate (length (columns table)) VNone)]\<rparr>))))
                \<and> (length nms = length vs
                    \<and> (\<forall>k'. i < k' \<and> k' < length idxs \<longrightarrow> idxs ! k' \<noteq> idxs ! i) \<longrightarrow>
                      fill_row idxs vs (replicate (length (columns table)) VNone) ! (idxs ! i) = VStr nm
                      \<and> (validate_row (fill_row idxs vs (replicate (length (columns table)) VNone))
                            (columns table) = None
                          \<longrightarrow> type (columns table ! (idxs ! i)) = TEXT
                              \<or> type (columns table ! (idxs ! i)) = DATE)
                      \<and> (type (columns table ! (idxs ! i)) \<noteq> TEXT
                          \<and> type (columns table ! (idxs ! i)) \<noteq> DATE
                          \<longrightarrow> (\<exists>c ty. validate_row
                                   (fill_row idxs vs (replicate (length (columns table)) VNone))
                                   (columns table) = Some (Type_mismatch_for_column c ty))))))"
proof -
  let ?cols = "columns table"
  let ?n = "length ?cols"
  have A: "evaluate_expression F (Identifier nm) None None = Inr (VStr nm)" by simp
  have B: "e = OverflowError
          \<and> execute_query F db (INSERT_STMT tn col_nodes value_nodes) = (Exception e, db)"
    if "evaluate_values F value_nodes = Inl e" for e col_nodes
    using that evaluate_values_Inl [OF that] execute_insert_raises [OF assms(1) that] by simp
  have C: "length vs = length value_nodes \<and> vs ! i = VStr nm
          \<and> execute_query F db (INSERT_STMT tn [] value_nodes) =
               (if length vs \<noteq> ?n
                then (Return_False (Value_count_mismatch ?n (length vs)), db)
                else (case validate_row vs ?cols of
                        Some m \<Rightarrow> (Return_False m, db)
                      | None \<Rightarrow> (Return_True Row_inserted,
                                 db(lower F tn \<mapsto> table\<lparr>rows := rows table @ [vs]\<rparr>))))
          \<and> (length vs = ?n \<longrightarrow>
                (validate_row vs ?cols = None
                   \<longrightarrow> type (?cols ! i) = TEXT \<or> type (?cols ! i) = DATE)
                \<and> (type (?cols ! i) \<noteq> TEXT \<and> type (?cols ! i) \<noteq> DATE
                   \<longrightarrow> (\<exists>c ty. validate_row vs ?cols = Some (Type_mismatch_for_column c ty))))
          \<and> (\<forall>nms idxs.
                nms \<noteq> [] \<and> length idxs = length nms
                \<and> (\<forall>k < length nms. get_column_index F table (nms ! k) = Some (idxs ! k)) \<longrightarrow>
                execute_query F db (INSERT_STMT tn (map Identifier nms) value_nodes) =
                  (if length nms \<noteq> length vs
                   then (Return_False (Column_and_value_count_mismatch (length nms) (length vs)), db)
                   else (case validate_row (fill_row idxs vs (replicate ?n VNone)) ?cols of
                           Some m \<Rightarrow> (Return_False m, db)
                         | None \<Rightarrow> (Return_True Row_inserted,
                                    db(lower F tn \<mapsto> table\<lparr>rows := rows table
                                      @ [fill_row idxs vs (replicate ?n VNone)]\<rparr>))))
                \<and> (length nms = length vs
                    \<and> (\<forall>k'. i < k' \<and> k' < length idxs \<longrightarrow> idxs ! k' \<noteq> idxs ! i) \<longrightarrow>
                      fill_row idxs vs (replicate ?n VNone) ! (idxs ! i) = VStr nm
                      \<and> (validate_row (fill_row idxs vs (replicate ?n VNone)) ?cols = None
                          \<longrightarrow> type (?cols ! (idxs ! i)) = TEXT \<or> type (?cols ! (idxs ! i)) = DATE)
                      \<and> (type (?cols ! (idxs ! i)) \<noteq> TEXT \<and> type (?cols ! (idxs ! i)) \<noteq> DATE
                          \<longrightarrow> (\<exists>c ty. validate_row (fill_row idxs vs (replicate ?n VNone)) ?cols
                                   = Some (Type_mismatch_for_column c ty)))))"
    if vs: "evaluate_values F value_nodes = Inr vs" for vs
  proof -
    note ev = evaluate_values_Inr [OF vs]
    from ev have len: "length vs = length value_nodes" by simp
    from ev assms(2,3) have vi: "vs ! i = VStr nm" by auto
    have pos: "execute_query F db (INSERT_STMT tn [] value_nodes) =
               (if length vs \<noteq> ?n
                then (Return_False (Value_count_mismatch ?n (length vs)), db)
                else (case validate_row vs ?cols of
                        Some m \<Rightarrow> (Return_False m, db)
                      | None \<Rightarrow> (Return_True Row_inserted,
                                 db(lower F tn \<mapsto> table\<lparr>rows := rows table @ [vs]\<rparr>))))"
      using execute_insert_positional [OF assms(1) vs] by simp
    have chk: "(validate_row vs ?cols = None
                   \<longrightarrow> type (?cols ! i) = TEXT \<or> type (?cols ! i) = DATE)
                \<and> (type (?cols ! i) \<noteq> TEXT \<and> type (?cols ! i) \<noteq> DATE
                   \<longrightarrow> (\<exists>c ty. validate_row vs ?cols = Some (Type_mismatch_for_column c ty)))"
      if "length vs = ?n"
      using validate_row_string [OF that _ vi] assms(2) len that by simp
    have lst: "execute_query F db (INSERT_STMT tn (map Identifier nms) value_nodes) =
                  (if length nms \<noteq> length vs
                   then (Return_False (Column_and_value_count_mismatch (length nms) (length vs)), db)
                   else (case validate_row (fill_row idxs vs (replicate ?n VNone)) ?cols of
                           Some m \<Rightarrow> (Return_False m, db)
                         | None \<Rightarrow> (Return_True Row_inserted,
                                    db(lower F tn \<mapsto> table\<lparr>rows := rows table
                                      @ [fill_row idxs vs (replicate ?n VNone)]\<rparr>))))
                \<and> (length nms = length vs
                    \<and> (\<forall>k'. i < k' \<and> k' < length idxs \<longrightarrow> idxs ! k' \<noteq> idxs ! i) \<longrightarrow>
                      fill_row idxs vs (replicate ?n VNone) ! (idxs ! i) = VStr nm
                      \<and> (validate_row (fill_row idxs vs (replicate ?n VNone)) ?cols = None
                          \<longrightarrow> type (?cols ! (idxs ! i)) = TEXT \<or> type (?cols ! (idxs ! i)) = DATE)
                      \<and> (type (?cols ! (idxs ! i)) \<noteq> TEXT \<and> type (?cols ! (idxs ! i)) \<noteq> DATE
                          \<longrightarrow> (\<exists>c ty. validate_row (fill_row idxs vs (replicate ?n VNone)) ?cols
                                   = Some (Type_mismatch_for_column c ty))))"
      if ne: "nms \<noteq> []" and li: "length idxs = length nms"
        and res: "\<forall>k < length nms. get_column_index F table (nms ! k) = Some (idxs ! k)"
      for nms idxs
    proof -
      let ?row = "fill_row idxs vs (replicate ?n VNone)"
      have ex: "execute_query F db (INSERT_STMT tn (map Identifier nms) value_nodes) =
                  (if length nms \<noteq> length vs
                   then (Return_False (Column_and_value_count_mismatch (length nms) (length vs)), db)
                   else (case validate_row ?row ?cols of
                           Some m \<Rightarrow> (Return_False m, db)
                         | None \<Rightarrow> (Return_True Row_inserted,
                                    db(lower F tn \<mapsto> table\<lparr>rows := rows table @ [?row]\<rparr>))))"
        using execute_insert_column_list [OF assms(1) vs ne li res] by simp
      have cell: "?row ! (idxs ! i) = VStr nm
                      \<and> (validate_row ?row ?cols = None
                          \<longrightarrow> type (?cols ! (idxs ! i)) = TEXT \<or> type (?cols ! (idxs ! i)) = DATE)
                      \<and> (type (?cols ! (idxs ! i)) \<noteq> TEXT \<and> type (?cols ! (idxs ! i)) \<noteq> DATE
                          \<longrightarrow> (\<exists>c ty. validate_row ?row ?cols = Some (Type_mismatch_for_column c ty)))"
        if eq: "length nms = length vs"
          and last: "\<forall>k'. i < k' \<and> k' < length idxs \<longrightarrow> idxs ! k' \<noteq> idxs ! i"
      proof -
        have i: "i < length idxs" using li eq len assms(2) by simp
        have lv: "length idxs = length vs" using li eq by simp
        have bound: "idxs ! i < ?n"
          using res i li get_column_index_less by fastforce
        from fill_row_last [OF lv i _ last, of "replicate ?n VNone"] bound vi
        have r: "?row ! (idxs ! i) = VStr nm" by simp
        have "length ?row = ?n" by (simp add: fill_row_length)
        from validate_row_string [OF this bound r] r show ?thesis by blast
      qed
      from ex cell show ?thesis by blast
    qed
    from len vi pos chk lst show ?thesis by blast
  qed
  from A B C show ?thesis by blast
qed

text \<open>
  \<^verbatim>\<open>INSERT INTO t (name) VALUES (carol)\<close> stores the string \<open>carol\<close>,
  \<^verbatim>\<open>INSERT INTO t (id) VALUES (carol)\<close> fails the type check of \<open>id\<close>, and
  \<^verbatim>\<open>INSERT INTO t VALUES (carol)\<close> fails the count.
\<close>

theorem insert_identifier_value_witness:
  "get_table exact (t_db two_rows) ''t'' = Some (t_table two_rows)
   \<and> [Identifier ''carol'' :: rat ASTNode] ! 0 = Identifier ''carol''
   \<and> evaluate_values exact [Identifier ''carol''] = Inr [VStr ''carol'']
   \<and> get_column_index exact (t_table two_rows) ''name'' = Some 1
   \<and> execute_query exact (t_db two_rows) (INSERT_STMT ''t'' [Identifier ''name''] [Identifier ''carol''])
        = (Return_True Row_inserted, t_db (two_rows @ [[VNone, VStr ''carol'']]))
   \<and> get_column_index exact (t_table two_rows) ''id'' = Some 0
   \<and> execute_query exact (t_db two_rows) (INSERT_STMT ''t'' [Identifier ''id''] [Identifier ''carol''])
        = (Return_False (Type_mismatch_for_column ''id'' INT'), t_db two_rows)
   \<and> execute_query exact (t_db two_rows) (INSERT_STMT ''t'' [] [Identifier ''carol''])
        = (Return_False (Value_count_mismatch 2 1), t_db two_rows)"
proof -
  let ?vn = "[Identifier ''carol'' :: rat ASTNode]"
  have a: "get_table exact (t_db two_rows) ''t'' = Some (t_table two_rows)"
    by (rule t_db_get)
  have b: "0 < length ?vn" by simp
  have c: "?vn ! 0 = Identifier ''carol''" by simp
  have e: "evaluate_values exact ?vn = Inr [VStr ''carol'']" by simp
  have n: "get_column_index exact (t_table two_rows) ''name'' = Some 1"
    and i: "get_column_index exact (t_table two_rows) ''id'' = Some 0"
    by (simp_all add: t_simps)
  note th = insert_identifier_value [OF a b c, THEN conjunct2, THEN conjunct2, rule_format, OF e]
  have pos: "execute_query exact (t_db two_rows) (INSERT_STMT ''t'' [] ?vn)
        = (Return_False (Value_count_mismatch 2 1), t_db two_rows)"
    using th by (simp add: t_simps t_columns_def)
  note lst = th [THEN conjunct2, THEN conjunct2, THEN conjunct2, THEN conjunct2, rule_format]
  have "execute_query exact (t_db two_rows) (INSERT_STMT ''t'' (map Identifier [''name'']) ?vn)
        = (Return_True Row_inserted, t_db (two_rows @ [[VNone, VStr ''carol'']]))"
    using lst [of "[''name'']" "[1]", THEN conjunct1] n
    by (simp add: t_simps t_columns_def)
  then have ok: "execute_query exact (t_db two_rows) (INSERT_STMT ''t'' [Identifier ''name''] ?vn)
        = (Return_True Row_inserted, t_db (two_rows @ [[VNone, VStr ''carol'']]))"
    by simp
  have "execute_query exact (t_db two_rows) (INSERT_STMT ''t'' (map Identifier [''id'']) ?vn)
        = (Return_False (Type_mismatch_for_column ''id'' INT'), t_db two_rows)"
    using lst [of "[''id'']" "[0]", THEN conjunct1] i
    by (simp add: t_simps t_columns_def)
  then have bad: "execute_query exact (t_db two_rows) (INSERT_STMT ''t'' [Identifier ''id''] ?vn)
        = (Return_False (Type_mismatch_for_column ''id'' INT'), t_db two_rows)"
    by simp
  from a c e n i ok bad pos show ?thesis by blast
qed

text \<open>
  \<^verbatim>\<open>INSERT INTO t (id, id) VALUES (carol, 2)\<close> succeeds and appends \<open>[2, NULL]\<close>: the
  string, bound for the INT column \<open>id\<close>, is overwritten and never checked.
\<close>

theorem insert_identifier_value_counterexample:
  "execute_query exact (t_db two_rows)
     (INSERT_STMT ''t'' [Identifier ''id'', Identifier ''id''] [Identifier ''carol'', Literal (VInt 2)])
    = (Return_True Row_inserted,
       t_db [[VInt 1, VStr ''Alice''], [VInt 2, VStr ''Bob''], [VInt 2, VNone]])"
  by (simp add: execute_insert_def t_simps add_row_def t_columns_def two_rows_def)

section \<open>WHERE clauses and SELECT\<close>


lemma comparison_type_mismatch:
  assumes "op \<noteq> AND" "op \<noteq> OR" "op \<noteq> NOT"
    and "evaluate_expression F left (Some table) (Some row) = Inr lv"
    and "evaluate_expression F right (Some table) (Some row) = Inr rv"
    and "\<not> same_type lv rv" and "\<not> (is_number lv \<and> is_number rv)"
  shows "evaluate_condition F (Condition left (Some op) (Some right)) table row = Inr (CBool False)"
  using assms by simp

lemma qualifies_type_mismatch:
  assumes "op \<noteq> AND" "op \<noteq> OR" "op \<noteq> NOT"
    and "evaluate_expression F left (Some table) (Some row) = Inr lv"
    and "evaluate_expression F right (Some table) (Some row) = Inr rv"
    and "\<not> same_type lv rv" and "\<not> (is_number lv \<and> is_number rv)"
  shows "qualifies F (Some (Condition left (Some op) (Some right))) table row = Inr False"
  using comparison_type_mismatch [OF assms] by (simp add: qualifies_def)


















section \<open>A division by zero\<close>

















section \<open>UPDATE\<close>

text \<open>
  C3. The code at \<^verbatim>\<open>UPDATE t SET id = id + 1\<close>, on the rows \<open>[1, 'Alice']\<close> and
  \<open>[2, 'Bob']\<close>. The SET expression is evaluated once, before the scan, with neither table
  nor row: there \<open>id\<close> is the string \<open>'id'\<close> and the sum is NULL. The UPDATE reports two
  rows updated and \<open>id\<close> is NULL in both, where C3 gives each row its own incremented
  value, \<open>2\<close> and \<open>3\<close>.
\<close>

theorem update_set_column_reference:
  "evaluate_expression exact (Expression (Identifier ''id'') PLUS (Literal (VInt 1))) None None
     = Inr VNone
   \<and> execute_query exact (t_db two_rows)
       (UPDATE_STMT ''t'' [(Identifier ''id'', Expression (Identifier ''id'') PLUS (Literal (VInt 1)))]
          None)
      = (Return_True (Rows_updated 2), t_db [[VNone, VStr ''Alice''], [VNone, VStr ''Bob'']])"
  by (simp add: execute_update_def t_simps two_rows_def qualifies_def t_columns_def)

lemma set_clauses_Done:
  "set_clauses F table tn set_nodes = Done clauses \<Longrightarrow>
     length clauses = length set_nodes
     \<and> (\<forall>k < length set_nodes. \<exists>nm. fst (set_nodes ! k) = Identifier nm
            \<and> get_column_index F table nm = Some (fst (clauses ! k))
            \<and> evaluate_expression F (snd (set_nodes ! k)) None None = Inr (snd (clauses ! k)))"
proof (induction F table tn set_nodes arbitrary: clauses rule: set_clauses.induct)
  case (1 F table tn)
  then show ?case by simp
next
  case (2 F table tn col_name right set_nodes)
  then show ?case
    by (auto simp: nth_Cons split: option.splits sum.splits outcome.splits nat.splits)
qed simp_all

lemma update_row_Failed:
  assumes "\<forall>(i, w) \<in> set before. validate_type w (type (cols ! i)) \<and> i < length row"
    and "\<not> validate_type v (type (cols ! col_idx))"
  shows "update_row cols (before @ (col_idx, v) # after) row
           = (Failed (Type_mismatch_during_update (name (cols ! col_idx)) (type (cols ! col_idx))),
              fold (\<lambda>(i, w) r. r[i := w]) before row)"
  using assms by (induction before arbitrary: row) auto

lemma update_rows_Failed:
  assumes "\<forall>r \<in> set pre. qualifies F w table r = Inr False"
    and "qualifies F w table row = Inr True"
    and "update_row (columns table) clauses row = (Failed m, row')"
  shows "update_rows F w table clauses n (pre @ row # post) = (Failed m, pre @ row' # post)"
  using assms by (induction pre) auto

lemma set_clauses_bound:
  assumes "set_clauses F table tn set_nodes = Done clauses"
  shows "\<forall>(i, w) \<in> set clauses. i < length (columns table)"
proof -
  note d = set_clauses_Done [OF assms]
  have "fst (clauses ! k) < length (columns table)" if "k < length clauses" for k
    using d that get_column_index_less by fastforce
  then show ?thesis by (fastforce simp: in_set_conv_nth)
qed

text \<open>
  C4, as the code has it. An UPDATE on an existing table in which some SET value fails
  the type check of its column and some row qualifies (the rows before the first one that
  qualifies evaluating the WHERE clause to false) stops at the first qualifying row, at
  the first clause that fails: it returns \<^verbatim>\<open>False\<close> with the type-mismatch message of
  that column and reports no count. No row before that one was written (none qualified),
  the rows after it are not reached, and the clauses before the failing one are already
  written into that row: the update is not atomic.
\<close>

theorem update_type_failure:
  assumes "get_table F db tn = Some table"
    and "set_clauses F table tn set_nodes = Done (before @ (col_idx, v) # after)"
    and "\<forall>(i, w) \<in> set before. validate_type w (type (columns table ! i))"
    and "\<not> validate_type v (type (columns table ! col_idx))"
    and "rows table = pre @ row # post"
    and "\<forall>r \<in> set pre. qualifies F where_clause table r = Inr False"
    and "qualifies F where_clause table row = Inr True"
    and "length row = length (columns table)"
  shows "execute_query F db (UPDATE_STMT tn set_nodes where_clause)
           = (Return_False (Type_mismatch_during_update
                 (name (columns table ! col_idx)) (type (columns table ! col_idx))),
              db(lower F tn \<mapsto> table\<lparr>rows := pre @ fold (\<lambda>(i, w) r. r[i := w]) before row # post\<rparr>))"
proof -
  let ?clauses = "before @ (col_idx, v) # after"
  from set_clauses_bound [OF assms(2)] assms(8)
  have "\<forall>(i, w) \<in> set before. i < length row" by auto
  with assms(3) have "\<forall>(i, w) \<in> set before. validate_type w (type (columns table ! i)) \<and> i < length row"
    by auto
  from update_row_Failed [OF this assms(4)]
  have "update_row (columns table) ?clauses row
           = (Failed (Type_mismatch_during_update
                 (name (columns table ! col_idx)) (type (columns table ! col_idx))),
              fold (\<lambda>(i, w) r. r[i := w]) before row)" .
  from update_rows_Failed [OF assms(6,7) this]
  have "update_rows F where_clause table ?clauses 0 (rows table)
          = (Failed (Type_mismatch_during_update
                 (name (columns table ! col_idx)) (type (columns table ! col_idx))),
             pre @ fold (\<lambda>(i, w) r. r[i := w]) before row # post)"
    by (simp add: assms(5))
  with assms(1,2) show ?thesis by (simp add: execute_update_def)
qed

text \<open>
  \<^verbatim>\<open>UPDATE t SET name = 'X', id = 'ten'\<close>: the result is \<^verbatim>\<open>False\<close> with a message that
  holds no count, and \<open>name\<close> is already written in the first row.
\<close>

theorem update_type_failure_counterexample:
  "execute_query exact (t_db two_rows)
     (UPDATE_STMT ''t'' [(Identifier ''name'', Literal (VStr ''X'')),
                         (Identifier ''id'', Literal (VStr ''ten''))] None)
    = (Return_False (Type_mismatch_during_update ''id'' INT'),
       t_db [[VInt 1, VStr ''X''], [VInt 2, VStr ''Bob'']])"
  by (simp add: execute_update_def t_simps two_rows_def qualifies_def t_columns_def)

text \<open>
  The same SET clauses with \<^verbatim>\<open>WHERE id = 2\<close>: the first row does not qualify, the second
  is left half written.
\<close>

theorem update_type_failure_witness:
  "get_table exact (t_db two_rows) ''t'' = Some (t_table two_rows)
   \<and> set_clauses exact (t_table two_rows) ''t''
        [(Identifier ''name'', Literal (VStr ''X'')), (Identifier ''id'', Literal (VStr ''ten''))]
       = Done ([(1, VStr ''X'')] @ (0, VStr ''ten'') # [])
   \<and> validate_type (VStr ''X'' :: rat pyvalue) (type (columns (t_table two_rows) ! 1))
   \<and> \<not> validate_type (VStr ''ten'' :: rat pyvalue) (type (columns (t_table two_rows) ! 0))
   \<and> rows (t_table two_rows) = [[VInt 1, VStr ''Alice'']] @ [VInt 2, VStr ''Bob''] # []
   \<and> qualifies exact (Some (Condition (Identifier ''id'') (Some EQUALS) (Some (Literal (VInt 2)))))
         (t_table two_rows) [VInt 1, VStr ''Alice''] = Inr False
   \<and> qualifies exact (Some (Condition (Identifier ''id'') (Some EQUALS) (Some (Literal (VInt 2)))))
         (t_table two_rows) [VInt 2, VStr ''Bob''] = Inr True
   \<and> length [VInt 2, VStr ''Bob'' :: rat pyvalue] = length (columns (t_table two_rows))
   \<and> execute_query exact (t_db two_rows)
        (UPDATE_STMT ''t'' [(Identifier ''name'', Literal (VStr ''X'')),
                            (Identifier ''id'', Literal (VStr ''ten''))]
           (Some (Condition (Identifier ''id'') (Some EQUALS) (Some (Literal (VInt 2))))))
       = (Return_False (Type_mismatch_during_update ''id'' INT'),
          t_db [[VInt 1, VStr ''Alice''], [VInt 2, VStr ''X'']])"
proof -
  let ?w = "Some (Condition (Identifier ''id'') (Some EQUALS) (Some (Literal (VInt 2)))) :: rat ASTNode option"
  let ?s = "[(Identifier ''name'', Literal (VStr ''X'')), (Identifier ''id'', Literal (VStr ''ten''))]
              :: (rat ASTNode \<times> rat ASTNode) list"
  have a: "get_table exact (t_db two_rows) ''t'' = Some (t_table two_rows)" by (rule t_db_get)
  have b: "set_clauses exact (t_table two_rows) ''t'' ?s = Done ([(1, VStr ''X'')] @ (0, VStr ''ten'') # [])"
    by (simp add: t_simps)
  have c': "validate_type (VStr ''X'' :: rat pyvalue) (type (columns (t_table two_rows) ! 1))"
    by (simp add: t_simps t_columns_def)
  then have c: "\<forall>(i, w) \<in> set [(1, VStr ''X'' :: rat pyvalue)].
      validate_type w (type (columns (t_table two_rows) ! i))"
    by simp
  have d: "\<not> validate_type (VStr ''ten'' :: rat pyvalue) (type (columns (t_table two_rows) ! 0))"
    by (simp add: t_simps t_columns_def)
  have e: "rows (t_table two_rows) = [[VInt 1, VStr ''Alice'']] @ [VInt 2, VStr ''Bob''] # []"
    by (simp add: t_simps two_rows_def)
  have f': "qualifies exact ?w (t_table two_rows) [VInt 1, VStr ''Alice''] = Inr False"
    by (simp add: t_simps qualifies_def compare_op_def)
  then have f: "\<forall>r \<in> set [[VInt 1, VStr ''Alice'']]. qualifies exact ?w (t_table two_rows) r = Inr False"
    by simp
  have g: "qualifies exact ?w (t_table two_rows) [VInt 2, VStr ''Bob''] = Inr True"
    by (simp add: t_simps qualifies_def compare_op_def)
  have h: "length [VInt 2, VStr ''Bob'' :: rat pyvalue] = length (columns (t_table two_rows))"
    by (simp add: t_simps t_columns_def)
  have "execute_query exact (t_db two_rows) (UPDATE_STMT ''t'' ?s ?w)
       = (Return_False (Type_mismatch_during_update ''id'' INT'),
          t_db [[VInt 1, VStr ''Alice''], [VInt 2, VStr ''X'']])"
    using update_type_failure [OF a b c d e f g h]
    by (simp add: t_simps t_columns_def)
  with a b c' d e f' g h show ?thesis by blast
qed

section \<open>The invariant is kept\<close>

lemma satisfies_declared_type_validate: "satisfies_declared_type v ty = validate_type v ty"
  by (cases v) auto

lemma row_ok_validate:
  "row_ok cols row \<longleftrightarrow> length row = length cols \<and> validate_row row cols = None"
  by (auto simp: row_ok_def satisfies_declared_type_validate validate_row_None_iff
           simp del: validate_type.simps)

lemma update_row_ok:
  "row_ok cols row \<Longrightarrow> row_ok cols (snd (update_row cols clauses row))"
proof (induction cols clauses row rule: update_row.induct)
  case (1 cols row)
  then show ?case by simp
next
  case (2 cols col_idx v clauses row)
  show ?case
  proof (cases "validate_type v (type (cols ! col_idx)) \<and> col_idx < length row")
    case True
    with "2.prems" have "row_ok cols (row[col_idx := v])"
      by (auto simp: row_ok_def nth_list_update satisfies_declared_type_validate
               simp del: validate_type.simps)
    with True "2.IH" show ?thesis by simp
  next
    case False
    with "2.prems" show ?thesis by auto
  qed
qed

lemma update_rows_ok:
  "\<forall>row \<in> set rs. row_ok (columns table) row
    \<Longrightarrow> \<forall>row \<in> set (snd (update_rows F w table clauses n rs)). row_ok (columns table) row"
proof (induction rs arbitrary: n)
  case Nil
  then show ?case by simp
next
  case (Cons row rs)
  have r: "row_ok (columns table) (snd (update_row (columns table) clauses row))"
    using Cons.prems by (simp add: update_row_ok)
  have rest: "\<forall>row \<in> set (snd (update_rows F w table clauses k rs)). row_ok (columns table) row" for k
    using Cons by simp
  show ?case
  proof (cases "qualifies F w table row")
    case (Inl e)
    with Cons.prems show ?thesis by simp
  next
    case (Inr b)
    show ?thesis
    proof (cases b)
      case False
      with Inr Cons.prems rest [of n] show ?thesis by (auto split: prod.splits)
    next
      case True
      with Inr Cons.prems rest [of "Suc n"] r show ?thesis
        by (auto split: prod.splits outcome.splits)
    qed
  qed
qed

lemma delete_rows_subset:
  "delete_rows F w table rs = Inr (keep, n) \<Longrightarrow> set keep \<subseteq> set rs"
proof (induction rs arbitrary: keep n)
  case Nil
  then show ?case by simp
next
  case (Cons row rs)
  then show ?case
    by (auto split: sum.splits option.splits if_splits prod.splits)
qed

lemma invariant_update_table:
  assumes "catalog_invariant F db" and "get_table F db tn = Some table"
    and "\<forall>row \<in> set rs. row_ok (columns table) row"
  shows "catalog_invariant F (db(lower F tn \<mapsto> table\<lparr>rows := rs\<rparr>))"
  using assms by (auto simp: catalog_invariant_def get_table_def)

lemma invariant_rows:
  "catalog_invariant F db \<Longrightarrow> get_table F db tn = Some table
    \<Longrightarrow> \<forall>row \<in> set (rows table). row_ok (columns table) row"
  by (auto simp: catalog_invariant_def get_table_def)

lemma execute_insert_invariant:
  assumes "catalog_invariant F db"
  shows "catalog_invariant F (snd (execute_insert F db tn col_nodes value_nodes))"
proof (cases "fst (execute_insert F db tn col_nodes value_nodes) = Return_True Row_inserted")
  case False
  with assms show ?thesis by (simp add: execute_insert_failure_keeps)
next
  case True
  then obtain db' where ex: "execute_insert F db tn col_nodes value_nodes = (Return_True Row_inserted, db')"
    by (cases "execute_insert F db tn col_nodes value_nodes") simp
  then obtain table where t: "get_table F db tn = Some table"
    by (cases "get_table F db tn") (auto simp: execute_insert_def)
  have "\<exists>row. row_ok (columns table) row \<and> db' = db(lower F tn \<mapsto> table\<lparr>rows := rows table @ [row]\<rparr>)"
  proof (cases "col_nodes = []")
    case True
    with ex have "execute_insert F db tn [] value_nodes = (Return_True Row_inserted, db')" by simp
    from execute_insert_positional_success [OF t this] show ?thesis
      by (auto simp: row_ok_validate)
  next
    case False
    from execute_insert_column_list_success [OF t False ex] obtain idxs vs where
      "validate_row (fill_row idxs vs (replicate (length (columns table)) VNone)) (columns table) = None"
      "db' = db(lower F tn \<mapsto>
          table\<lparr>rows := rows table @ [fill_row idxs vs (replicate (length (columns table)) VNone)]\<rparr>)"
      by blast
    then show ?thesis
      by (intro exI [of _ "fill_row idxs vs (replicate (length (columns table)) VNone)"])
         (simp add: row_ok_validate fill_row_length)
  qed
  then obtain row where r: "row_ok (columns table) row"
    and db': "db' = db(lower F tn \<mapsto> table\<lparr>rows := rows table @ [row]\<rparr>)" by blast
  from r invariant_rows [OF assms t]
  have "\<forall>row \<in> set (rows table @ [row]). row_ok (columns table) row" by auto
  from invariant_update_table [OF assms t this] ex db' show ?thesis by simp
qed

lemma execute_update_invariant:
  assumes "catalog_invariant F db"
  shows "catalog_invariant F (snd (execute_update F db tn set_nodes w))"
proof (cases "get_table F db tn")
  case None
  with assms show ?thesis by (simp add: execute_update_def)
next
  case (Some table)
  show ?thesis
  proof (cases "set_clauses F table tn set_nodes")
    case (Done clauses)
    obtain r rows' where u: "update_rows F w table clauses 0 (rows table) = (r, rows')"
      by (cases "update_rows F w table clauses 0 (rows table)")
    have "\<forall>row \<in> set (snd (update_rows F w table clauses 0 (rows table))). row_ok (columns table) row"
      using invariant_rows [OF assms Some] by (rule update_rows_ok)
    with u have "\<forall>row \<in> set rows'. row_ok (columns table) row" by simp
    from invariant_update_table [OF assms Some this] Some Done u show ?thesis
      by (simp add: execute_update_def)
  qed (use assms Some in \<open>simp_all add: execute_update_def\<close>)
qed

lemma execute_delete_invariant:
  assumes "catalog_invariant F db"
  shows "catalog_invariant F (snd (execute_delete F db tn w))"
proof (cases "get_table F db tn")
  case None
  with assms show ?thesis by (simp add: execute_delete_def)
next
  case (Some table)
  show ?thesis
  proof (cases "delete_rows F w table (rows table)")
    case (Inl e)
    with assms Some show ?thesis by (simp add: execute_delete_def)
  next
    case (Inr p)
    obtain keep n where p: "p = (keep, n)" by (cases p)
    with Inr delete_rows_subset have "set keep \<subseteq> set (rows table)" by blast
    with invariant_rows [OF assms Some] have "\<forall>row \<in> set keep. row_ok (columns table) row" by blast
    from invariant_update_table [OF assms Some this] Some Inr p show ?thesis
      by (simp add: execute_delete_def)
  qed
qed

lemma execute_create_invariant:
  assumes "catalog_invariant F db"
  shows "catalog_invariant F (snd (execute_create F db tn col_nodes ttl))"
  using assms
  by (auto simp: execute_create_def create_table_def catalog_invariant_def
           split: outcome.splits sum.splits if_splits)

lemma execute_drop_invariant:
  assumes "catalog_invariant F db"
  shows "catalog_invariant F (snd (execute_drop F db tn))"
  using assms
  by (auto simp: execute_drop_def drop_table_def catalog_invariant_def
           split: sum.splits if_splits)

lemma execute_query_invariant:
  "catalog_invariant F db \<Longrightarrow> catalog_invariant F (snd (execute_query F db stmt))"
  by (cases stmt)
     (simp_all add: execute_insert_invariant execute_update_invariant execute_delete_invariant
        execute_create_invariant execute_drop_invariant)

lemma run_invariant:
  "catalog_invariant F db \<Longrightarrow> catalog_invariant F (run F db stmts)"
  by (induction stmts arbitrary: db) (simp_all add: execute_query_invariant)

text \<open>
  C8. Every catalog reached from the empty catalog by a sequence of statements, whatever
  each returns or raises, satisfies the invariant: every table is stored under its
  lower-cased name, so that two tables whose names are equal up to case are the same
  entry; every row has as many cells as its table has columns; every cell that is not
  NULL has the type its column declares (an integer in an INT or FLOAT column, a float in
  a FLOAT column, a string in a TEXT or DATE column).
\<close>

theorem reachable_catalog_invariant:
  "catalog_invariant F (run F Map.empty stmts)
   \<and> (\<forall>k k' table table'.
         run F Map.empty stmts k = Some table \<and> run F Map.empty stmts k' = Some table'
         \<and> lower F (table_name table) = lower F (table_name table') \<longrightarrow> k = k')"
proof -
  have "catalog_invariant F (Map.empty :: 'a Database)"
    by (simp add: catalog_invariant_def)
  then have inv: "catalog_invariant F (run F Map.empty stmts)"
    by (rule run_invariant)
  then have "k = k'"
    if "run F Map.empty stmts k = Some table" "run F Map.empty stmts k' = Some table'"
      "lower F (table_name table) = lower F (table_name table')" for k k' table table'
    using that by (auto simp: catalog_invariant_def)
  with inv show ?thesis by blast
qed

text \<open>
  CREATE, two INSERTs and an UPDATE reach the catalog with the table \<open>t\<close> and its two rows.
\<close>

theorem reachable_catalog_invariant_witness:
  "run exact Map.empty
     [CREATE_STMT ''t'' [(Identifier ''id'', INT'), (Identifier ''name'', TEXT)] None,
      INSERT_STMT ''t'' [] [Literal (VInt 1), Literal (VStr ''Alice'')],
      INSERT_STMT ''t'' [Identifier ''id''] [Literal (VInt 2)],
      UPDATE_STMT ''t'' [(Identifier ''name'', Literal (VStr ''Bob''))]
        (Some (Condition (Identifier ''id'') (Some EQUALS) (Some (Literal (VInt 2)))))]
    = t_db two_rows
   \<and> catalog_invariant exact (t_db two_rows)"
proof -
  let ?stmts = "[CREATE_STMT ''t'' [(Identifier ''id'', INT'), (Identifier ''name'', TEXT)] None,
      INSERT_STMT ''t'' [] [Literal (VInt 1), Literal (VStr ''Alice'')],
      INSERT_STMT ''t'' [Identifier ''id''] [Literal (VInt 2)],
      UPDATE_STMT ''t'' [(Identifier ''name'', Literal (VStr ''Bob''))]
        (Some (Condition (Identifier ''id'') (Some EQUALS) (Some (Literal (VInt 2)))))]
      :: rat Statement list"
  have c: "snd (execute_query exact Map.empty (?stmts ! 0)) = t_db []"
    by (simp add: execute_create_def create_table_def t_simps t_db_def t_table_def t_columns_def)
  have i1: "snd (execute_query exact (t_db []) (?stmts ! 1)) = t_db [[VInt 1, VStr ''Alice'']]"
    by (simp add: execute_insert_def t_simps add_row_def t_columns_def)
  have i2: "snd (execute_query exact (t_db [[VInt 1, VStr ''Alice'']]) (?stmts ! 2))
              = t_db [[VInt 1, VStr ''Alice''], [VInt 2, VNone]]"
    by (simp add: execute_insert_def t_simps add_row_def t_columns_def)
  have u: "snd (execute_query exact (t_db [[VInt 1, VStr ''Alice''], [VInt 2, VNone]]) (?stmts ! 3))
              = t_db two_rows"
    by (simp add: execute_update_def t_simps two_rows_def qualifies_def t_columns_def compare_op_def)
  have "run exact Map.empty ?stmts = t_db two_rows"
    using c i1 i2 u by simp
  with reachable_catalog_invariant [of exact ?stmts] show ?thesis by simp
qed

end
